theory Spec2Isabelle
  imports Complex_Main
begin

section \<open>Python values shared by all trainers\<close>

text \<open>
  The development embeds \<^verbatim>\<open>mwptoolkit/trainer/trainer.py\<close>.  Every exception the
  trainer code can raise by itself is a constructor of \<open>error\<close>; a function that may
  raise returns \<open>error + 'a\<close> with \<open>Inl\<close> for the exception.  \<open>LookupError\<close> is Python's
  common base class of IndexError and KeyError: it is what the subscript
  \<^verbatim>\<open>in_idx2word[i]\<close> raises, whatever container the dataset (which lies outside
  this file) uses for that table.  Python floats (accuracies, losses, learning rates) are
  rational numbers here: the code only adds, divides and compares them.
\<close>

datatype error =
    ZeroDivisionError
  | KeyError string
  | LookupError
  | IndexError
  | AttributeError string
  | TypeError string
  | FileNotFoundError

datatype dataset_type = Train | Valid | Test

text \<open>
  A two-dimensional integer tensor: \<^verbatim>\<open>t.size()\<close> is \<open>(t_rows t, t_cols t)\<close> and
  \<^verbatim>\<open>t[b, idx]\<close> is \<open>t_at t b idx\<close>; the trainer only reads positions inside the size.
\<close>

record tensor2d =
  t_rows :: nat
  t_cols :: nat
  t_at :: "nat \<Rightarrow> nat \<Rightarrow> int"

text \<open>
  The vocabulary tables of \<^verbatim>\<open>self.dataloader.dataset\<close> that the trainers read.
  The dataset class is not part of this file, so the tables are parameters: a finite
  table is a partial map, and a subscript outside its domain raises.
\<close>

record dataset =
  in_idx2word :: "int \<rightharpoonup> string"
  out_symbol2idx :: "string \<rightharpoonup> int"
  generate_list :: "string list"

section \<open>Vocabulary re-indexing\<close>

text \<open>
  \<^verbatim>\<open>Trainer._idx2word_2idx\<close> (the same body is repeated in SingleEquationTrainer,
  MultiEquationTrainer and TransformerTrainer).  The inner loop over \<^verbatim>\<open>range(length)\<close>
  builds one row; the outer loop over \<^verbatim>\<open>range(batch_size)\<close> collects the rows.  The
  first failing subscript aborts both loops.  The result is the nested list that is
  handed to \<^verbatim>\<open>torch.LongTensor\<close>.
\<close>

fun equation_loop :: "dataset \<Rightarrow> tensor2d \<Rightarrow> nat \<Rightarrow> nat list \<Rightarrow> error + int list" where
  "equation_loop ds batch_equation b [] = Inr []"
| "equation_loop ds batch_equation b (idx # idxs) =
     (case in_idx2word ds (t_at batch_equation b idx) of
        None \<Rightarrow> Inl LookupError
      | Some w \<Rightarrow>
         (case out_symbol2idx ds w of
            None \<Rightarrow> Inl (KeyError w)
          | Some j \<Rightarrow>
             (case equation_loop ds batch_equation b idxs of
                Inl e \<Rightarrow> Inl e
              | Inr equation \<Rightarrow> Inr (j # equation))))"

fun batch_loop :: "dataset \<Rightarrow> tensor2d \<Rightarrow> nat list \<Rightarrow> error + int list list" where
  "batch_loop ds batch_equation [] = Inr []"
| "batch_loop ds batch_equation (b # bs) =
     (case equation_loop ds batch_equation b [0..<t_cols batch_equation] of
        Inl e \<Rightarrow> Inl e
      | Inr equation \<Rightarrow>
         (case batch_loop ds batch_equation bs of
            Inl e \<Rightarrow> Inl e
          | Inr rest \<Rightarrow> Inr (equation # rest)))"

definition idx2word_2idx :: "dataset \<Rightarrow> tensor2d \<Rightarrow> error + int list list" where
  "idx2word_2idx ds batch_equation = batch_loop ds batch_equation [0..<t_rows batch_equation]"

text \<open>The double lookup the specification describes, as one partial function.\<close>

definition word_index :: "dataset \<Rightarrow> int \<Rightarrow> int option" where
  "word_index ds i = Option.bind (in_idx2word ds i) (out_symbol2idx ds)"

section \<open>Evaluation runner\<close>

text \<open>
  \<^verbatim>\<open>evaluate(self, eval_set)\<close> has the same body in every trainer class.  The
  per-batch work \<^verbatim>\<open>self._eval_batch(batch)\<close> involves the model and the evaluator and
  is the parameter \<open>eval_batch\<close>; \<^verbatim>\<open>self.dataloader.load_data\<close> is the parameter
  \<open>load_data\<close>; the elapsed time string is the parameter \<open>test_time_cost\<close>.  Python's
  \<^verbatim>\<open>/\<close> on two ints raises ZeroDivisionError for a zero divisor and otherwise yields the
  quotient, which is kept exact here.
\<close>

definition count_True :: "bool list \<Rightarrow> nat" where
  "count_True xs = length (filter (\<lambda>x. x) xs)"

definition py_truediv :: "nat \<Rightarrow> nat \<Rightarrow> error + rat" where
  "py_truediv a b = (if b = 0 then Inl ZeroDivisionError else Inr (of_nat a / of_nat b))"

fun evaluate_loop ::
  "('b \<Rightarrow> error + bool list \<times> bool list) \<Rightarrow> 'b list \<Rightarrow> nat \<times> nat \<times> nat
     \<Rightarrow> error + nat \<times> nat \<times> nat" where
  "evaluate_loop eval_batch [] acc = Inr acc"
| "evaluate_loop eval_batch (batch # batches) (value_ac, equation_ac, eval_total) =
     (case eval_batch batch of
        Inl e \<Rightarrow> Inl e
      | Inr (batch_val_ac, batch_equ_ac) \<Rightarrow>
          evaluate_loop eval_batch batches
            (value_ac + count_True batch_val_ac,
             equation_ac + count_True batch_equ_ac,
             eval_total + length batch_val_ac))"

definition evaluate ::
  "('b \<Rightarrow> error + bool list \<times> bool list) \<Rightarrow> (dataset_type \<Rightarrow> 'b list) \<Rightarrow> 't
     \<Rightarrow> dataset_type \<Rightarrow> error + rat \<times> rat \<times> nat \<times> 't" where
  "evaluate eval_batch load_data test_time_cost eval_set =
     (case evaluate_loop eval_batch (load_data eval_set) (0, 0, 0) of
        Inl e \<Rightarrow> Inl e
      | Inr (value_ac, equation_ac, eval_total) \<Rightarrow>
         (case py_truediv equation_ac eval_total of
            Inl e \<Rightarrow> Inl e
          | Inr equ_acc \<Rightarrow>
             (case py_truediv value_ac eval_total of
                Inl e \<Rightarrow> Inl e
              | Inr val_acc \<Rightarrow> Inr (equ_acc, val_acc, eval_total, test_time_cost))))"

section \<open>Trainer state, collaborators and persistent storage\<close>

text \<open>
  \<^verbatim>\<open>AbstractTrainer.__init__\<close> creates the six progress attributes; every concrete
  trainer class extends them with its optimizers.  \<open>model\<close> is the model's
  \<^verbatim>\<open>state_dict()\<close> (parameters together with the gradients the last backward pass
  left), an opaque value of type \<open>'m\<close>.
\<close>

record 'm abstract_trainer =
  model :: 'm
  best_valid_equ_accuracy :: rat
  best_valid_value_accuracy :: rat
  best_test_equ_accuracy :: rat
  best_test_value_accuracy :: rat
  start_epoch :: int
  epoch_i :: int

record ('m, 'o) trainer = "'m abstract_trainer" +
  optimizer :: 'o

definition AbstractTrainer_init :: "'m \<Rightarrow> 'm abstract_trainer" where
  "AbstractTrainer_init m =
     \<lparr>model = m,
      best_valid_equ_accuracy = 0, best_valid_value_accuracy = 0,
      best_test_equ_accuracy = 0, best_test_value_accuracy = 0,
      start_epoch = 0, epoch_i = 0\<rparr>"

text \<open>The recognised options of \<^verbatim>\<open>self.config\<close> that the modelled code reads.\<close>

record config =
  train_batch_size :: int
  epoch_nums :: int
  resume :: bool
  share_vocab :: bool
  learning_rate :: rat
  weight_decay :: rat
  step_size :: int
  out_pad_token :: int

text \<open>
  The values a checkpoint dictionary holds, and the dictionary itself.  A Python dict
  literal is built key by key from left to right, so a repeated key keeps its last value;
  the map update \<open>m(k \<mapsto> v)\<close> does the same.
\<close>

datatype ('m, 'o, 's) pyval =
    ModelState 'm
  | OptimState 'o
  | SchedState 's
  | IntVal int
  | FloatVal rat
  | Object string

type_synonym ('m, 'o, 's) pydict = "string \<rightharpoonup> ('m, 'o, 's) pyval"

text \<open>
  What a run leaves outside the trainer object: the file at
  \<^verbatim>\<open>config["trained_model_path"]\<close>, the file at \<^verbatim>\<open>config["checkpoint_path"]\<close>
  (\<open>None\<close> while the file does not exist), and the sequence of observable events: the
  calls of \<^verbatim>\<open>_train_epoch\<close> and \<^verbatim>\<open>evaluate\<close> that returned, in order, and the
  lines handed to the logger.  The elapsed-time strings of the log lines are left out.
  The effects of a run that is aborted by an exception are not tracked: an aborted
  function returns the exception only.
\<close>

datatype log_line =
    EpochLine int rat
  | ValidLine nat rat rat
  | TestLine nat rat rat

datatype event =
    TrainEpoch int
  | Evaluate dataset_type
  | Info log_line

record ('m, 'o, 's) world =
  trained_model_file :: "('m, 'o, 's) pydict option"
  checkpoint_file :: "('m, 'o, 's) pydict option"
  trace :: "event list"

text \<open>
  The collaborators: the data loader (\<open>load_data\<close>, \<open>trainset_nums\<close>, \<open>the_dataset\<close>,
  and \<open>batch_equation\<close> for \<^verbatim>\<open>batch["equation"]\<close>), the model with the loss adapter
  (\<open>get_loss\<close>: forward pass, \<^verbatim>\<open>loss.eval_batch\<close> and \<^verbatim>\<open>loss.get_loss()\<close>; \<open>backward\<close>:
  \<^verbatim>\<open>zero_grad\<close> followed by \<^verbatim>\<open>loss.backward()\<close>), one optimizer step
  (\<open>opt_step\<close>), the model's inference output for example \<open>idx\<close> of a batch judged by the
  evaluator against a target row (\<open>evaluator_result\<close>, the first two components of
  \<^verbatim>\<open>self.evaluator.result(test_out[idx], target[idx], ...)\<close>), and the clock
  (\<open>time_cost\<close>).  They are assumed not to raise.
\<close>

record ('m, 'o, 'b) collab =
  load_data :: "dataset_type \<Rightarrow> 'b list"
  trainset_nums :: int
  the_dataset :: dataset
  batch_equation :: "'b \<Rightarrow> tensor2d"
  get_loss :: "'m \<Rightarrow> 'b \<Rightarrow> int list \<Rightarrow> rat"
  backward :: "'b \<Rightarrow> 'm \<Rightarrow> 'm"
  opt_step :: "'o \<Rightarrow> 'm \<Rightarrow> 'm \<times> 'o"
  evaluator_result :: "'m \<Rightarrow> 'b \<Rightarrow> nat \<Rightarrow> int list \<Rightarrow> bool \<times> bool"
  time_cost :: string

definition err_bind :: "error + 'a \<Rightarrow> ('a \<Rightarrow> error + 'c) \<Rightarrow> error + 'c" where
  "err_bind r f = (case r of Inl e \<Rightarrow> Inl e | Inr x \<Rightarrow> f x)"

definition dict_get :: "('m, 'o, 's) pydict \<Rightarrow> string \<Rightarrow> error + ('m, 'o, 's) pyval" where
  "dict_get d k = (case d k of None \<Rightarrow> Inl (KeyError k) | Some v \<Rightarrow> Inr v)"

text \<open>
  \<^verbatim>\<open>torch.load(path)\<close>: the dictionary stored in the file, or an error when there is no
  file.
\<close>

definition torch_load :: "('m, 'o, 's) pydict option \<Rightarrow> error + ('m, 'o, 's) pydict" where
  "torch_load f = (case f of None \<Rightarrow> Inl FileNotFoundError | Some d \<Rightarrow> Inr d)"

text \<open>
  Reading a dictionary entry into a typed attribute.  Python assigns whatever the entry
  holds; in the typed record an entry of another kind is reported as a TypeError.  No
  dictionary written by a \<^verbatim>\<open>_save_checkpoint\<close> of the same class has such an entry.
\<close>

definition get_model :: "('m, 'o, 's) pydict \<Rightarrow> string \<Rightarrow> error + 'm" where
  "get_model d k = err_bind (dict_get d k)
     (\<lambda>v. case v of ModelState m \<Rightarrow> Inr m | _ \<Rightarrow> Inl (TypeError k))"

definition get_optim :: "('m, 'o, 's) pydict \<Rightarrow> string \<Rightarrow> error + 'o" where
  "get_optim d k = err_bind (dict_get d k)
     (\<lambda>v. case v of OptimState s \<Rightarrow> Inr s | _ \<Rightarrow> Inl (TypeError k))"

definition get_sched :: "('m, 'o, 's) pydict \<Rightarrow> string \<Rightarrow> error + 's" where
  "get_sched d k = err_bind (dict_get d k)
     (\<lambda>v. case v of SchedState s \<Rightarrow> Inr s | _ \<Rightarrow> Inl (TypeError k))"

definition get_int :: "('m, 'o, 's) pydict \<Rightarrow> string \<Rightarrow> error + int" where
  "get_int d k = err_bind (dict_get d k)
     (\<lambda>v. case v of IntVal i \<Rightarrow> Inr i | _ \<Rightarrow> Inl (TypeError k))"

definition get_float :: "('m, 'o, 's) pydict \<Rightarrow> string \<Rightarrow> error + rat" where
  "get_float d k = err_bind (dict_get d k)
     (\<lambda>v. case v of FloatVal r \<Rightarrow> Inr r | _ \<Rightarrow> Inl (TypeError k))"

section \<open>Saving the best model\<close>

text \<open>\<^verbatim>\<open>AbstractTrainer._save_model\<close> and \<^verbatim>\<open>AbstractTrainer._load_model\<close>.\<close>

definition save_model ::
  "('m, 'z) abstract_trainer_scheme \<Rightarrow> ('m, 'o, 's) world \<Rightarrow> ('m, 'o, 's) world" where
  "save_model tr w = w\<lparr>trained_model_file := Some [''model'' \<mapsto> ModelState (model tr)]\<rparr>"

definition load_model ::
  "('m, 'z) abstract_trainer_scheme \<Rightarrow> ('m, 'o, 's) world
     \<Rightarrow> error + ('m, 'z) abstract_trainer_scheme" where
  "load_model tr w =
     err_bind (torch_load (trained_model_file w)) (\<lambda>state_dict.
     err_bind (get_model state_dict ''model'') (\<lambda>m.
       Inr (tr\<lparr>model := m\<rparr>)))"

section \<open>The single-optimizer trainer\<close>

text \<open>
  Class \<^verbatim>\<open>Trainer\<close>.  SingleEquationTrainer and MultiEquationTrainer override every
  method with the same text (MultiEquationTrainer calls \<^verbatim>\<open>evaluator.result_multi\<close>
  where the others call \<^verbatim>\<open>evaluator.result\<close>, which is a choice of the collaborator
  \<open>evaluator_result\<close>), so the definitions of this section are the three classes.
\<close>

definition Trainer_save_checkpoint ::
  "('m, 'o) trainer \<Rightarrow> ('m, 'o, 's) world \<Rightarrow> ('m, 'o, 's) world" where
  "Trainer_save_checkpoint tr w =
     w\<lparr>checkpoint_file := Some
        [''model'' \<mapsto> ModelState (model tr),
         ''optimizer'' \<mapsto> OptimState (optimizer tr),
         ''start_epoch'' \<mapsto> IntVal (epoch_i tr),
         ''best_valid_value_accuracy'' \<mapsto> FloatVal (best_valid_value_accuracy tr),
         ''best_valid_equ_accuracy'' \<mapsto> FloatVal (best_valid_equ_accuracy tr),
         ''best_test_value_accuracy'' \<mapsto> FloatVal (best_test_value_accuracy tr),
         ''best_test_equ_accuracy'' \<mapsto> FloatVal (best_test_equ_accuracy tr)]\<rparr>"

definition Trainer_load_checkpoint ::
  "('m, 'o) trainer \<Rightarrow> ('m, 'o, 's) world \<Rightarrow> error + ('m, 'o) trainer" where
  "Trainer_load_checkpoint tr w =
     err_bind (torch_load (checkpoint_file w)) (\<lambda>check_pnt.
     err_bind (get_model check_pnt ''model'') (\<lambda>m.
     err_bind (get_optim check_pnt ''optimizer'') (\<lambda>opt.
     err_bind (get_int check_pnt ''start_epoch'') (\<lambda>se.
     err_bind (get_float check_pnt ''best_valid_value_accuracy'') (\<lambda>vv.
     err_bind (get_float check_pnt ''best_valid_equ_accuracy'') (\<lambda>ve.
     err_bind (get_float check_pnt ''best_test_value_accuracy'') (\<lambda>tv.
     err_bind (get_float check_pnt ''best_test_equ_accuracy'') (\<lambda>te.
       Inr (tr\<lparr>model := m, optimizer := opt, start_epoch := se,
               best_valid_value_accuracy := vv, best_valid_equ_accuracy := ve,
               best_test_value_accuracy := tv, best_test_equ_accuracy := te\<rparr>)))))))))"

text \<open>
  The target rows a batch is scored against: \<^verbatim>\<open>batch["equation"]\<close>, re-indexed when
  the vocabularies are shared.
\<close>

definition tensor_rows :: "tensor2d \<Rightarrow> int list list" where
  "tensor_rows t = map (\<lambda>b. map (t_at t b) [0..<t_cols t]) [0..<t_rows t]"

definition batch_target ::
  "config \<Rightarrow> ('m, 'o, 'b, 'y) collab_scheme \<Rightarrow> 'b \<Rightarrow> error + int list list" where
  "batch_target cfg env batch =
     (if share_vocab cfg then idx2word_2idx (the_dataset env) (batch_equation env batch)
      else Inr (tensor_rows (batch_equation env batch)))"

definition Trainer_train_batch ::
  "config \<Rightarrow> ('m, 'o, 'b) collab \<Rightarrow> 'm \<Rightarrow> 'b \<Rightarrow> error + rat" where
  "Trainer_train_batch cfg env m batch =
     err_bind (batch_target cfg env batch) (\<lambda>target.
       Inr (get_loss env m batch (concat target)))"

definition Trainer_eval_batch ::
  "config \<Rightarrow> ('m, 'o, 'b) collab \<Rightarrow> 'm \<Rightarrow> 'b \<Rightarrow> error + bool list \<times> bool list" where
  "Trainer_eval_batch cfg env m batch =
     err_bind (batch_target cfg env batch) (\<lambda>target.
       let results = map (\<lambda>(idx, row). evaluator_result env m batch idx row)
                         (zip [0..<length target] target)
       in Inr (map fst results, map snd results))"

fun Trainer_train_epoch_loop ::
  "config \<Rightarrow> ('m, 'o, 'b) collab \<Rightarrow> 'b list \<Rightarrow> 'm \<times> 'o \<times> rat \<Rightarrow> error + 'm \<times> 'o \<times> rat" where
  "Trainer_train_epoch_loop cfg env [] acc = Inr acc"
| "Trainer_train_epoch_loop cfg env (batch # batches) (m, opt, loss_total) =
     (case Trainer_train_batch cfg env m batch of
        Inl e \<Rightarrow> Inl e
      | Inr batch_loss \<Rightarrow>
          (case opt_step env opt (backward env batch m) of
             (m', opt') \<Rightarrow>
               Trainer_train_epoch_loop cfg env batches (m', opt', loss_total + batch_loss)))"

definition Trainer_train_epoch ::
  "config \<Rightarrow> ('m, 'o, 'b) collab \<Rightarrow> ('m, 'o) trainer \<Rightarrow> error + ('m, 'o) trainer \<times> rat" where
  "Trainer_train_epoch cfg env tr =
     (case Trainer_train_epoch_loop cfg env (load_data env Train) (model tr, optimizer tr, 0) of
        Inl e \<Rightarrow> Inl e
      | Inr (m, opt, loss_total) \<Rightarrow> Inr (tr\<lparr>model := m, optimizer := opt\<rparr>, loss_total))"

text \<open>
  \<^verbatim>\<open>int(self.dataloader.trainset_nums / train_batch_size) + 1\<close>: true division, then
  truncation towards zero.
\<close>

definition py_int_trunc :: "rat \<Rightarrow> int" where
  "py_int_trunc r = (if 0 \<le> r then \<lfloor>r\<rfloor> else \<lceil>r\<rceil>)"

definition train_batch_nums_of :: "config \<Rightarrow> ('m, 'o, 'b, 'y) collab_scheme \<Rightarrow> error + int" where
  "train_batch_nums_of cfg env =
     (if train_batch_size cfg = 0 then Inl ZeroDivisionError
      else Inr (py_int_trunc (of_int (trainset_nums env) / of_int (train_batch_size cfg)) + 1))"

text \<open>
  The block of \<^verbatim>\<open>fit\<close> that runs at an evaluation point: validation, test, the two log
  lines, and the update of the best metrics (lines 175 to 189 of the source; the same
  block is in GTSTrainer.fit).  \<open>valid_set\<close> is the split passed to the first
  \<^verbatim>\<open>evaluate\<close> call.
\<close>

definition eval_point ::
  "('m \<Rightarrow> 'b \<Rightarrow> error + bool list \<times> bool list) \<Rightarrow> ('m, 'o, 'b, 'y) collab_scheme
     \<Rightarrow> dataset_type
     \<Rightarrow> ('m, 'z) abstract_trainer_scheme \<times> ('m, 'p, 's) world
     \<Rightarrow> error + ('m, 'z) abstract_trainer_scheme \<times> ('m, 'p, 's) world" where
  "eval_point eval_batch env valid_set s =
     (case s of (tr, w) \<Rightarrow>
      (case evaluate (eval_batch (model tr)) (load_data env) (time_cost env) valid_set of
         Inl e \<Rightarrow> Inl e
       | Inr (valid_equ_ac, valid_val_ac, valid_total, valid_time_cost) \<Rightarrow>
        (case evaluate (eval_batch (model tr)) (load_data env) (time_cost env) Test of
           Inl e \<Rightarrow> Inl e
         | Inr (test_equ_ac, test_val_ac, test_total, test_time_cost) \<Rightarrow>
            (let w' = w\<lparr>trace := trace w @
                         [Evaluate valid_set,
                          Info (ValidLine valid_total valid_equ_ac valid_val_ac),
                          Evaluate Test,
                          Info (TestLine test_total test_equ_ac test_val_ac)]\<rparr>
             in if valid_val_ac \<ge> best_valid_value_accuracy tr
                then (let tr' = tr\<lparr>best_valid_value_accuracy := valid_val_ac,
                                   best_valid_equ_accuracy := valid_equ_ac,
                                   best_test_value_accuracy := test_val_ac,
                                   best_test_equ_accuracy := test_equ_ac\<rparr>
                      in Inr (tr', save_model tr' w'))
                else Inr (tr, w')))))"

text \<open>One iteration of the \<^verbatim>\<open>for epo in range(self.start_epoch, epoch_nums)\<close> loop.\<close>

definition Trainer_fit_epoch ::
  "config \<Rightarrow> ('m, 'o, 'b) collab \<Rightarrow> int \<Rightarrow> int
     \<Rightarrow> ('m, 'o) trainer \<times> ('m, 'o, 's) world
     \<Rightarrow> error + ('m, 'o) trainer \<times> ('m, 'o, 's) world" where
  "Trainer_fit_epoch cfg env train_batch_nums epo s =
     (case s of (tr, w) \<Rightarrow>
      (case Trainer_train_epoch cfg env (tr\<lparr>epoch_i := epo + 1\<rparr>) of
         Inl e \<Rightarrow> Inl e
       | Inr (tr1, loss_total) \<Rightarrow>
          if train_batch_nums = 0 then Inl ZeroDivisionError
          else
           (let w1 = w\<lparr>trace := trace w @
                        [TrainEpoch (epoch_i tr1),
                         Info (EpochLine (epoch_i tr1) (loss_total / of_int train_batch_nums))]\<rparr>
            in (case (if epo mod 2 = 0 \<or> epo > epoch_nums cfg - 5
                      then eval_point (Trainer_eval_batch cfg env) env Valid (tr1, w1)
                      else Inr (tr1, w1)) of
                  Inl e \<Rightarrow> Inl e
                | Inr (tr2, w2) \<Rightarrow>
                    if epo mod 5 = 0 then Inr (tr2, Trainer_save_checkpoint tr2 w2)
                    else Inr (tr2, w2)))))"

fun Trainer_fit_loop ::
  "config \<Rightarrow> ('m, 'o, 'b) collab \<Rightarrow> int \<Rightarrow> int list
     \<Rightarrow> ('m, 'o) trainer \<times> ('m, 'o, 's) world
     \<Rightarrow> error + ('m, 'o) trainer \<times> ('m, 'o, 's) world" where
  "Trainer_fit_loop cfg env train_batch_nums [] s = Inr s"
| "Trainer_fit_loop cfg env train_batch_nums (epo # epos) s =
     (case Trainer_fit_epoch cfg env train_batch_nums epo s of
        Inl e \<Rightarrow> Inl e
      | Inr s' \<Rightarrow> Trainer_fit_loop cfg env train_batch_nums epos s')"

text \<open>
  Attribute lookup on a Trainer instance: the attributes that \<^verbatim>\<open>__init__\<close>,
  \<^verbatim>\<open>_build_optimizer\<close>, \<^verbatim>\<open>_build_loss\<close>, \<^verbatim>\<open>_train_epoch\<close> and \<^verbatim>\<open>fit\<close> assign and
  the methods of the class; any other name raises AttributeError.
\<close>

definition Trainer_attribute_names :: "string list" where
  "Trainer_attribute_names =
     [''config'', ''dataloader'', ''evaluator'', ''logger'', ''loss'', ''batch_idx'',
      ''train_batch_nums'', ''_save_checkpoint'', ''_load_checkpoint'', ''_save_model'',
      ''_load_model'', ''_build_optimizer'', ''_build_loss'', ''_idx2word_2idx'',
      ''_train_batch'', ''_eval_batch'', ''_train_epoch'', ''fit'', ''evaluate'', ''test'']"

definition Trainer_getattr ::
  "('m, 'o) trainer \<Rightarrow> string \<Rightarrow> error + ('m, 'o, 's) pyval" where
  "Trainer_getattr tr name =
     (if name = ''model'' then Inr (ModelState (model tr))
      else if name = ''optimizer'' then Inr (OptimState (optimizer tr))
      else if name = ''best_valid_equ_accuracy'' then Inr (FloatVal (best_valid_equ_accuracy tr))
      else if name = ''best_valid_value_accuracy'' then Inr (FloatVal (best_valid_value_accuracy tr))
      else if name = ''best_test_equ_accuracy'' then Inr (FloatVal (best_test_equ_accuracy tr))
      else if name = ''best_test_value_accuracy'' then Inr (FloatVal (best_test_value_accuracy tr))
      else if name = ''start_epoch'' then Inr (IntVal (start_epoch tr))
      else if name = ''epoch_i'' then Inr (IntVal (epoch_i tr))
      else if name \<in> set Trainer_attribute_names then Inr (Object name)
      else Inl (AttributeError name))"

text \<open>
  Attribute lookup on one of the modelled values (a float, an int, a state dictionary):
  none of them has an attribute of a trainer.
\<close>

definition pyval_getattr :: "('m, 'o, 's) pyval \<Rightarrow> string \<Rightarrow> error + ('m, 'o, 's) pyval" where
  "pyval_getattr v name = Inl (AttributeError name)"

text \<open>
  The final statement of \<^verbatim>\<open>Trainer.fit\<close> (lines 192 to 196).  Python first builds the
  argument tuple
  \<^verbatim>\<open>(self.best_valid_equ_accuracy, self.best_valid_value_accuracy,
  self.best_test_equ_accuracyself.best_test_value_accuracy)\<close> from left to right; the third
  component reads the attribute \<^verbatim>\<open>best_test_equ_accuracyself\<close> of the trainer and then
  the attribute \<^verbatim>\<open>best_test_value_accuracy\<close> of the result.  A tuple of three values
  for a format string with four conversions is a TypeError, so no branch reaches
  \<^verbatim>\<open>self.logger.info\<close>.
\<close>

definition Trainer_final_log ::
  "('m, 'o) trainer \<times> ('m, 'o, 's) world \<Rightarrow> error + ('m, 'o) trainer \<times> ('m, 'o, 's) world" where
  "Trainer_final_log s =
     (case s of (tr, w) \<Rightarrow>
      err_bind (Trainer_getattr tr ''best_valid_equ_accuracy'' :: error + ('m, 'o, 's) pyval) (\<lambda>a1.
      err_bind (Trainer_getattr tr ''best_valid_value_accuracy'' :: error + ('m, 'o, 's) pyval) (\<lambda>a2.
      err_bind (Trainer_getattr tr ''best_test_equ_accuracyself'' :: error + ('m, 'o, 's) pyval) (\<lambda>x.
      err_bind (pyval_getattr x ''best_test_value_accuracy'') (\<lambda>a3.
        Inl (TypeError ''not enough arguments for format string''))))))"

definition Trainer_fit ::
  "config \<Rightarrow> ('m, 'o, 'b) collab \<Rightarrow> ('m, 'o) trainer \<times> ('m, 'o, 's) world
     \<Rightarrow> error + ('m, 'o) trainer \<times> ('m, 'o, 's) world" where
  "Trainer_fit cfg env s =
     err_bind (train_batch_nums_of cfg env) (\<lambda>train_batch_nums.
     err_bind (Trainer_fit_loop cfg env train_batch_nums
                 [start_epoch (fst s)..epoch_nums cfg - 1] s) (\<lambda>s'.
       Trainer_final_log s'))"

section \<open>The tree-decoder trainer\<close>

text \<open>
  Modelled from the spec: the tree-decoder model class is not part of this file; the
  trainer reads its five submodules \<^verbatim>\<open>embedder\<close>, \<^verbatim>\<open>encoder\<close>, \<^verbatim>\<open>decoder\<close>,
  \<^verbatim>\<open>node_generater\<close> and \<^verbatim>\<open>merge\<close>.  Each field is the list of parameter tensors
  that \<^verbatim>\<open>.parameters()\<close> of the submodule yields.
\<close>

record 'p gts_model =
  embedder :: "'p list"
  encoder :: "'p list"
  decoder :: "'p list"
  node_generater :: "'p list"
  merge :: "'p list"

text \<open>
  Modelled from the spec: \<^verbatim>\<open>self.model.parameters()\<close> of the tree-decoder model, the
  parameters of its five submodules in the order of the submodules, each parameter once.
\<close>

definition gts_parameters :: "'p gts_model \<Rightarrow> 'p list" where
  "gts_parameters m =
     remdups (embedder m @ encoder m @ decoder m @ node_generater m @ merge m)"

text \<open>
  \<^verbatim>\<open>torch.optim.Adam(params, lr, weight_decay=wd)\<close>: the parameter group, its
  hyper-parameters and the internal state (here the number of steps taken).
  \<^verbatim>\<open>torch.optim.lr_scheduler.StepLR(optimizer, step_size, gamma)\<close> multiplies the learning
  rate of the optimizer it was built over by \<open>gamma\<close> every \<open>step_size\<close> calls of
  \<^verbatim>\<open>step()\<close>; torch tests \<^verbatim>\<open>last_epoch % step_size\<close>, which raises for a zero step
  size.
\<close>

record 'p adam =
  adam_params :: "'p list"
  adam_lr :: rat
  adam_weight_decay :: rat
  adam_state :: nat

definition Adam :: "'p list \<Rightarrow> rat \<Rightarrow> rat \<Rightarrow> 'p adam" where
  "Adam ps lr wd = \<lparr>adam_params = ps, adam_lr = lr, adam_weight_decay = wd, adam_state = 0\<rparr>"

record steplr =
  sl_step_size :: int
  sl_gamma :: rat
  sl_last_epoch :: int

definition StepLR :: "int \<Rightarrow> rat \<Rightarrow> steplr" where
  "StepLR n g = \<lparr>sl_step_size = n, sl_gamma = g, sl_last_epoch = 0\<rparr>"

definition StepLR_step :: "steplr \<times> 'p adam \<Rightarrow> error + steplr \<times> 'p adam" where
  "StepLR_step so =
     (case so of (sched, opt) \<Rightarrow>
       (let e = sl_last_epoch sched + 1 in
        if e = 0 then Inr (sched\<lparr>sl_last_epoch := e\<rparr>, opt)
        else if sl_step_size sched = 0 then Inl ZeroDivisionError
        else if e mod sl_step_size sched \<noteq> 0 then Inr (sched\<lparr>sl_last_epoch := e\<rparr>, opt)
        else Inr (sched\<lparr>sl_last_epoch := e\<rparr>, opt\<lparr>adam_lr := adam_lr opt * sl_gamma sched\<rparr>)))"

record 'p gts_trainer = "'p gts_model abstract_trainer" +
  embedder_optimizer :: "'p adam"
  encoder_optimizer :: "'p adam"
  decoder_optimizer :: "'p adam"
  node_generater_optimizer :: "'p adam"
  merge_optimizer :: "'p adam"
  embedder_scheduler :: steplr
  encoder_scheduler :: steplr
  decoder_scheduler :: steplr
  node_generater_scheduler :: steplr
  merge_scheduler :: steplr

text \<open>
  \<^verbatim>\<open>GTSTrainer._build_optimizer\<close> (lines 571 to 583), applied to the attributes that
  \<^verbatim>\<open>AbstractTrainer.__init__\<close> has set.  Scheduler \<open>x_scheduler\<close> is built over
  \<open>x_optimizer\<close>.
\<close>

definition GTS_build_optimizer ::
  "config \<Rightarrow> 'p gts_model abstract_trainer \<Rightarrow> 'p gts_trainer" where
  "GTS_build_optimizer cfg tr =
     \<lparr>model = model tr,
      best_valid_equ_accuracy = best_valid_equ_accuracy tr,
      best_valid_value_accuracy = best_valid_value_accuracy tr,
      best_test_equ_accuracy = best_test_equ_accuracy tr,
      best_test_value_accuracy = best_test_value_accuracy tr,
      start_epoch = start_epoch tr,
      epoch_i = epoch_i tr,
      embedder_optimizer =
        Adam (embedder (model tr)) (learning_rate cfg) (weight_decay cfg),
      encoder_optimizer =
        Adam (encoder (model tr)) (learning_rate cfg) (weight_decay cfg),
      decoder_optimizer =
        Adam (gts_parameters (model tr)) (learning_rate cfg) (weight_decay cfg),
      node_generater_optimizer =
        Adam (node_generater (model tr)) (learning_rate cfg) (weight_decay cfg),
      merge_optimizer =
        Adam (merge (model tr)) (learning_rate cfg) (weight_decay cfg),
      embedder_scheduler = StepLR (step_size cfg) (1 / 2),
      encoder_scheduler = StepLR (step_size cfg) (1 / 2),
      decoder_scheduler = StepLR (step_size cfg) (1 / 2),
      node_generater_scheduler = StepLR (step_size cfg) (1 / 2),
      merge_scheduler = StepLR (step_size cfg) (1 / 2)\<rparr>"

type_synonym 'p gts_world = "('p gts_model, 'p adam, steplr) world"

text \<open>
  \<^verbatim>\<open>GTSTrainer._save_checkpoint\<close> (lines 585 to 604): the dictionary literal, entry by
  entry in the order of the source.
\<close>

definition GTS_save_checkpoint :: "'p gts_trainer \<Rightarrow> 'p gts_world \<Rightarrow> 'p gts_world" where
  "GTS_save_checkpoint tr w =
     w\<lparr>checkpoint_file := Some
        [''model'' \<mapsto> ModelState (model tr),
         ''embedder_optimizer'' \<mapsto> OptimState (embedder_optimizer tr),
         ''encoder_optimizer'' \<mapsto> OptimState (encoder_optimizer tr),
         ''decoder_optimizer'' \<mapsto> OptimState (decoder_optimizer tr),
         ''generate_optimizer'' \<mapsto> OptimState (node_generater_optimizer tr),
         ''merge_optimizer'' \<mapsto> OptimState (merge_optimizer tr),
         ''embedder_scheduler'' \<mapsto> SchedState (embedder_scheduler tr),
         ''encoder_scheduler'' \<mapsto> SchedState (encoder_scheduler tr),
         ''decoder_optimizer'' \<mapsto> OptimState (decoder_optimizer tr),
         ''generate_scheduler'' \<mapsto> SchedState (node_generater_scheduler tr),
         ''merge_scheduler'' \<mapsto> SchedState (merge_scheduler tr),
         ''start_epoch'' \<mapsto> IntVal (epoch_i tr),
         ''best_valid_value_accuracy'' \<mapsto> FloatVal (best_valid_value_accuracy tr),
         ''best_valid_equ_accuracy'' \<mapsto> FloatVal (best_valid_equ_accuracy tr),
         ''best_test_value_accuracy'' \<mapsto> FloatVal (best_test_value_accuracy tr),
         ''best_test_equ_accuracy'' \<mapsto> FloatVal (best_test_equ_accuracy tr)]\<rparr>"

text \<open>\<^verbatim>\<open>GTSTrainer._load_checkpoint\<close> (lines 606 to 627), subscript by subscript.\<close>

definition GTS_load_checkpoint :: "'p gts_trainer \<Rightarrow> 'p gts_world \<Rightarrow> error + 'p gts_trainer" where
  "GTS_load_checkpoint tr w =
     err_bind (torch_load (checkpoint_file w)) (\<lambda>check_pnt.
     err_bind (get_model check_pnt ''model'') (\<lambda>m.
     err_bind (get_optim check_pnt ''embedder_optimizer'') (\<lambda>o1.
     err_bind (get_optim check_pnt ''encoder_optimizer'') (\<lambda>o2.
     err_bind (get_optim check_pnt ''decoder_optimizer'') (\<lambda>o3.
     err_bind (get_optim check_pnt ''generate_optimizer'') (\<lambda>o4.
     err_bind (get_optim check_pnt ''merge_optimizer'') (\<lambda>o5.
     err_bind (get_sched check_pnt ''embedding_scheduler'') (\<lambda>s1.
     err_bind (get_sched check_pnt ''encoder_scheduler'') (\<lambda>s2.
     err_bind (get_sched check_pnt ''decoder_scheduler'') (\<lambda>s3.
     err_bind (get_sched check_pnt ''generate_scheduler'') (\<lambda>s4.
     err_bind (get_sched check_pnt ''merge_scheduler'') (\<lambda>s5.
     err_bind (get_int check_pnt ''start_epoch'') (\<lambda>se.
     err_bind (get_float check_pnt ''best_valid_value_accuracy'') (\<lambda>vv.
     err_bind (get_float check_pnt ''best_valid_equ_accuracy'') (\<lambda>ve.
     err_bind (get_float check_pnt ''best_test_value_accuracy'') (\<lambda>tv.
     err_bind (get_float check_pnt ''best_test_equ_accuracy'') (\<lambda>te.
       Inr (tr\<lparr>model := m,
               embedder_optimizer := o1, encoder_optimizer := o2, decoder_optimizer := o3,
               node_generater_optimizer := o4, merge_optimizer := o5,
               embedder_scheduler := s1, encoder_scheduler := s2, decoder_scheduler := s3,
               node_generater_scheduler := s4, merge_scheduler := s5,
               start_epoch := se,
               best_valid_value_accuracy := vv, best_valid_equ_accuracy := ve,
               best_test_value_accuracy := tv,
               best_test_equ_accuracy := te\<rparr>))))))))))))))))))"

text \<open>\<^verbatim>\<open>GTSTrainer.__init__\<close>.\<close>

definition GTSTrainer_init ::
  "config \<Rightarrow> 'p gts_model \<Rightarrow> 'p gts_world \<Rightarrow> error + 'p gts_trainer" where
  "GTSTrainer_init cfg m w =
     (let tr = GTS_build_optimizer cfg (AbstractTrainer_init m)
      in if resume cfg then GTS_load_checkpoint tr w else Inr tr)"

definition GTS_scheduler_step :: "'p gts_trainer \<Rightarrow> error + 'p gts_trainer" where
  "GTS_scheduler_step tr =
     err_bind (StepLR_step (embedder_scheduler tr, embedder_optimizer tr)) (\<lambda>(s1, o1).
     err_bind (StepLR_step (encoder_scheduler tr, encoder_optimizer tr)) (\<lambda>(s2, o2).
     err_bind (StepLR_step (decoder_scheduler tr, decoder_optimizer tr)) (\<lambda>(s3, o3).
     err_bind (StepLR_step (node_generater_scheduler tr, node_generater_optimizer tr)) (\<lambda>(s4, o4).
     err_bind (StepLR_step (merge_scheduler tr, merge_optimizer tr)) (\<lambda>(s5, o5).
       Inr (tr\<lparr>embedder_optimizer := o1, encoder_optimizer := o2, decoder_optimizer := o3,
               node_generater_optimizer := o4, merge_optimizer := o5,
               embedder_scheduler := s1, encoder_scheduler := s2, decoder_scheduler := s3,
               node_generater_scheduler := s4, merge_scheduler := s5\<rparr>))))))"

definition GTS_optimizer_step ::
  "('p gts_model, 'p adam, 'b, 'y) collab_scheme \<Rightarrow> 'p gts_trainer \<Rightarrow> 'p gts_trainer" where
  "GTS_optimizer_step env tr =
     (case opt_step env (embedder_optimizer tr) (model tr) of (m1, o1) \<Rightarrow>
      case opt_step env (encoder_optimizer tr) m1 of (m2, o2) \<Rightarrow>
      case opt_step env (decoder_optimizer tr) m2 of (m3, o3) \<Rightarrow>
      case opt_step env (node_generater_optimizer tr) m3 of (m4, o4) \<Rightarrow>
      case opt_step env (merge_optimizer tr) m4 of (m5, o5) \<Rightarrow>
        tr\<lparr>model := m5,
           embedder_optimizer := o1, encoder_optimizer := o2, decoder_optimizer := o3,
           node_generater_optimizer := o4, merge_optimizer := o5\<rparr>)"

text \<open>
  \<^verbatim>\<open>[self.dataloader.dataset.out_symbol2idx[symbol] for symbol in generate_list]\<close>, the
  first statement of the tree-decoder's \<^verbatim>\<open>_train_batch\<close> and \<^verbatim>\<open>_eval_batch\<close>.
\<close>

fun generate_nums :: "(string \<rightharpoonup> int) \<Rightarrow> string list \<Rightarrow> error + int list" where
  "generate_nums symbol2idx [] = Inr []"
| "generate_nums symbol2idx (symbol # symbols) =
     (case symbol2idx symbol of
        None \<Rightarrow> Inl (KeyError symbol)
      | Some n \<Rightarrow>
         (case generate_nums symbol2idx symbols of
            Inl e \<Rightarrow> Inl e
          | Inr ns \<Rightarrow> Inr (n # ns)))"

definition GTS_train_batch ::
  "('p gts_model, 'p adam, 'b, 'y) collab_scheme \<Rightarrow> 'p gts_model \<Rightarrow> 'b \<Rightarrow> error + rat" where
  "GTS_train_batch env m batch =
     err_bind (generate_nums (out_symbol2idx (the_dataset env))
                 (generate_list (the_dataset env))) (\<lambda>nums.
       Inr (get_loss env m batch (concat (tensor_rows (batch_equation env batch)))))"

definition GTS_eval_batch ::
  "('p gts_model, 'p adam, 'b, 'y) collab_scheme \<Rightarrow> 'p gts_model \<Rightarrow> 'b
     \<Rightarrow> error + bool list \<times> bool list" where
  "GTS_eval_batch env m batch =
     err_bind (generate_nums (out_symbol2idx (the_dataset env))
                 (generate_list (the_dataset env))) (\<lambda>nums.
       case tensor_rows (batch_equation env batch) of
         [] \<Rightarrow> Inl IndexError
       | row # rows \<Rightarrow>
          (case evaluator_result env m batch 0 row of
             (val_ac, equ_ac) \<Rightarrow> Inr ([val_ac], [equ_ac])))"

fun GTS_train_epoch_loop ::
  "('p gts_model, 'p adam, 'b, 'y) collab_scheme \<Rightarrow> 'b list \<Rightarrow> 'p gts_trainer \<times> rat
     \<Rightarrow> error + 'p gts_trainer \<times> rat" where
  "GTS_train_epoch_loop env [] acc = Inr acc"
| "GTS_train_epoch_loop env (batch # batches) (tr, loss_total) =
     (case GTS_train_batch env (model tr) batch of
        Inl e \<Rightarrow> Inl e
      | Inr loss \<Rightarrow>
          GTS_train_epoch_loop env batches
            (GTS_optimizer_step env (tr\<lparr>model := backward env batch (model tr)\<rparr>),
             loss_total + loss))"

definition GTS_train_epoch ::
  "('p gts_model, 'p adam, 'b, 'y) collab_scheme \<Rightarrow> 'p gts_trainer
     \<Rightarrow> error + 'p gts_trainer \<times> rat" where
  "GTS_train_epoch env tr = GTS_train_epoch_loop env (load_data env Train) (tr, 0)"

definition GTS_fit_epoch ::
  "config \<Rightarrow> ('p gts_model, 'p adam, 'b, 'y) collab_scheme \<Rightarrow> int \<Rightarrow> int
     \<Rightarrow> 'p gts_trainer \<times> 'p gts_world \<Rightarrow> error + 'p gts_trainer \<times> 'p gts_world" where
  "GTS_fit_epoch cfg env train_batch_nums epo s =
     (case s of (tr, w) \<Rightarrow>
      (case GTS_train_epoch env (tr\<lparr>epoch_i := epo + 1\<rparr>) of
         Inl e \<Rightarrow> Inl e
       | Inr (tr1, loss_total) \<Rightarrow>
         (case GTS_scheduler_step tr1 of
            Inl e \<Rightarrow> Inl e
          | Inr tr2 \<Rightarrow>
             if train_batch_nums = 0 then Inl ZeroDivisionError
             else
              (let w1 = w\<lparr>trace := trace w @
                           [TrainEpoch (epoch_i tr2),
                            Info (EpochLine (epoch_i tr2)
                                    (loss_total / of_int train_batch_nums))]\<rparr>
               in (case (if epo mod 10 = 0 \<or> epo > epoch_nums cfg - 5
                         then eval_point (GTS_eval_batch env) env Valid (tr2, w1)
                         else Inr (tr2, w1)) of
                     Inl e \<Rightarrow> Inl e
                   | Inr (tr3, w3) \<Rightarrow>
                       if epo mod 5 = 0 then Inr (tr3, GTS_save_checkpoint tr3 w3)
                       else Inr (tr3, w3))))))"

fun GTS_fit_loop ::
  "config \<Rightarrow> ('p gts_model, 'p adam, 'b, 'y) collab_scheme \<Rightarrow> int \<Rightarrow> int list
     \<Rightarrow> 'p gts_trainer \<times> 'p gts_world \<Rightarrow> error + 'p gts_trainer \<times> 'p gts_world" where
  "GTS_fit_loop cfg env train_batch_nums [] s = Inr s"
| "GTS_fit_loop cfg env train_batch_nums (epo # epos) s =
     (case GTS_fit_epoch cfg env train_batch_nums epo s of
        Inl e \<Rightarrow> Inl e
      | Inr s' \<Rightarrow> GTS_fit_loop cfg env train_batch_nums epos s')"

definition GTS_fit ::
  "config \<Rightarrow> ('p gts_model, 'p adam, 'b, 'y) collab_scheme
     \<Rightarrow> 'p gts_trainer \<times> 'p gts_world \<Rightarrow> error + 'p gts_trainer \<times> 'p gts_world" where
  "GTS_fit cfg env s =
     err_bind (train_batch_nums_of cfg env) (\<lambda>train_batch_nums.
       GTS_fit_loop cfg env train_batch_nums [start_epoch (fst s)..epoch_nums cfg - 1] s)"

section \<open>The transformer trainer\<close>

text \<open>
  \<^verbatim>\<open>TransformerTrainer\<close> repeats the checkpoint methods, \<^verbatim>\<open>_train_epoch\<close> and
  \<^verbatim>\<open>_eval_batch\<close> of \<^verbatim>\<open>Trainer\<close> (its optimizer is the warm-up wrapper, an opaque
  \<open>'o\<close> here).  Its \<^verbatim>\<open>fit\<close> (lines 867 to 898) passes \<^verbatim>\<open>DatasetType.Train\<close> to the
  first \<^verbatim>\<open>evaluate\<close> call and has no statement after the loop.
\<close>

definition Transformer_fit_epoch ::
  "config \<Rightarrow> ('m, 'o, 'b) collab \<Rightarrow> int \<Rightarrow> int
     \<Rightarrow> ('m, 'o) trainer \<times> ('m, 'o, 's) world
     \<Rightarrow> error + ('m, 'o) trainer \<times> ('m, 'o, 's) world" where
  "Transformer_fit_epoch cfg env train_batch_nums epo s =
     (case s of (tr, w) \<Rightarrow>
      (case Trainer_train_epoch cfg env (tr\<lparr>epoch_i := epo + 1\<rparr>) of
         Inl e \<Rightarrow> Inl e
       | Inr (tr1, loss_total) \<Rightarrow>
          if train_batch_nums = 0 then Inl ZeroDivisionError
          else
           (let w1 = w\<lparr>trace := trace w @
                        [TrainEpoch (epoch_i tr1),
                         Info (EpochLine (epoch_i tr1) (loss_total / of_int train_batch_nums))]\<rparr>
            in (case (if epo mod 2 = 0 \<or> epo > epoch_nums cfg - 5
                      then eval_point (Trainer_eval_batch cfg env) env Train (tr1, w1)
                      else Inr (tr1, w1)) of
                  Inl e \<Rightarrow> Inl e
                | Inr (tr2, w2) \<Rightarrow>
                    if epo mod 5 = 0 then Inr (tr2, Trainer_save_checkpoint tr2 w2)
                    else Inr (tr2, w2)))))"

fun Transformer_fit_loop ::
  "config \<Rightarrow> ('m, 'o, 'b) collab \<Rightarrow> int \<Rightarrow> int list
     \<Rightarrow> ('m, 'o) trainer \<times> ('m, 'o, 's) world
     \<Rightarrow> error + ('m, 'o) trainer \<times> ('m, 'o, 's) world" where
  "Transformer_fit_loop cfg env train_batch_nums [] s = Inr s"
| "Transformer_fit_loop cfg env train_batch_nums (epo # epos) s =
     (case Transformer_fit_epoch cfg env train_batch_nums epo s of
        Inl e \<Rightarrow> Inl e
      | Inr s' \<Rightarrow> Transformer_fit_loop cfg env train_batch_nums epos s')"

section \<open>The adversarial trainer\<close>

text \<open>
  Modelled from the spec: the adversarial model class is not part of this file; the
  trainer reads its two submodules \<^verbatim>\<open>generator\<close> and \<^verbatim>\<open>discriminator\<close>, each given
  by its parameter list.
\<close>

record 'p seqgan_model =
  generator :: "'p list"
  discriminator :: "'p list"

text \<open>
  \<^verbatim>\<open>best_value_accuracy\<close> and \<^verbatim>\<open>best_equ_accuracy\<close> are attributes that only
  \<^verbatim>\<open>_load_checkpoint\<close> and \<^verbatim>\<open>fit\<close> assign: \<open>None\<close> is an instance without the
  attribute.
\<close>

record 'p seqgan_trainer = "'p seqgan_model abstract_trainer" +
  generator_optimizer :: "'p adam"
  discriminator_optimizer :: "'p adam"
  best_value_accuracy :: "rat option"
  best_equ_accuracy :: "rat option"

type_synonym 'p seqgan_world = "('p seqgan_model, 'p adam, unit) world"

text \<open>
  A Python number as \<^verbatim>\<open>get_reward\<close> and the loss totals handle it: an int, a float, or
  a zero-dimensional tensor.  \<^verbatim>\<open>rewards\<close> starts as the int \<^verbatim>\<open>0\<close> and becomes a
  tensor with the first \<^verbatim>\<open>+=\<close>; real-valued contents are kept exact.
\<close>

datatype number = PyInt int | PyFloat rat | PyTensor rat

definition number_val :: "number \<Rightarrow> rat" where
  "number_val n = (case n of PyInt i \<Rightarrow> of_int i | PyFloat r \<Rightarrow> r | PyTensor r \<Rightarrow> r)"

definition add_tensor :: "number \<Rightarrow> rat \<Rightarrow> number" where
  "add_tensor n t = PyTensor (number_val n + t)"

definition add_number :: "number \<Rightarrow> number \<Rightarrow> number" where
  "add_number a b =
     (case (a, b) of
        (PyInt i, PyInt j) \<Rightarrow> PyInt (i + j)
      | (PyTensor r, _) \<Rightarrow> PyTensor (r + number_val b)
      | (_, PyTensor r) \<Rightarrow> PyTensor (number_val a + r)
      | _ \<Rightarrow> PyFloat (number_val a + number_val b))"

definition neg_number :: "number \<Rightarrow> number" where
  "neg_number n = (case n of PyInt i \<Rightarrow> PyInt (- i) | PyFloat r \<Rightarrow> PyFloat (- r)
                   | PyTensor r \<Rightarrow> PyTensor (- r))"

text \<open>
  The collaborators of the adversarial trainer, in addition to those of the other
  trainers: the generator's forward pass on a batch (the generated token tensor
  \<^verbatim>\<open>outputs\<close>, the list \<^verbatim>\<open>monte_carlo_outputs\<close> of roll-outs, one per step, and the
  list \<^verbatim>\<open>P\<close> of per-step token log-probability vectors); the discriminator applied to a
  roll-out, reshaped to \<^verbatim>\<open>(batch_size, -1)\<close> and averaged over dimension 1
  (\<open>rollout_reward\<close>, a vector indexed by the example); the discriminator's loss on a
  generated and a real batch with the weight-norm term (\<open>disc_loss\<close>); and the two
  backward passes.
\<close>

record ('m, 'o, 'b, 'r) seqgan_collab = "('m, 'o, 'b) collab" +
  generator_forward :: "'m \<Rightarrow> 'b \<Rightarrow> tensor2d \<times> 'r list \<times> (nat \<Rightarrow> rat) list"
  rollout_reward :: "'m \<Rightarrow> 'r \<Rightarrow> nat \<Rightarrow> nat \<Rightarrow> rat"
  disc_loss :: "'m \<Rightarrow> 'b \<Rightarrow> int list \<Rightarrow> rat"
  reward_backward :: "'b \<Rightarrow> 'm \<Rightarrow> 'm"
  disc_backward :: "'b \<Rightarrow> 'm \<Rightarrow> 'm"

text \<open>\<^verbatim>\<open>SeqGANTrainer._build_optimizer\<close> on the attributes of \<^verbatim>\<open>AbstractTrainer.__init__\<close>.\<close>

definition SeqGAN_build_optimizer ::
  "config \<Rightarrow> 'p seqgan_model abstract_trainer \<Rightarrow> 'p seqgan_trainer" where
  "SeqGAN_build_optimizer cfg tr =
     \<lparr>model = model tr,
      best_valid_equ_accuracy = best_valid_equ_accuracy tr,
      best_valid_value_accuracy = best_valid_value_accuracy tr,
      best_test_equ_accuracy = best_test_equ_accuracy tr,
      best_test_value_accuracy = best_test_value_accuracy tr,
      start_epoch = start_epoch tr,
      epoch_i = epoch_i tr,
      generator_optimizer = Adam (generator (model tr)) (learning_rate cfg) 0,
      discriminator_optimizer = Adam (discriminator (model tr)) (learning_rate cfg) 0,
      best_value_accuracy = None,
      best_equ_accuracy = None\<rparr>"

text \<open>\<^verbatim>\<open>SeqGANTrainer._save_checkpoint\<close> (lines 952 to 962).\<close>

definition SeqGAN_save_checkpoint ::
  "'p seqgan_trainer \<Rightarrow> 'p seqgan_world \<Rightarrow> 'p seqgan_world" where
  "SeqGAN_save_checkpoint tr w =
     w\<lparr>checkpoint_file := Some
        [''model'' \<mapsto> ModelState (model tr),
         ''generator_optimizer'' \<mapsto> OptimState (generator_optimizer tr),
         ''discriminator_optimizer'' \<mapsto> OptimState (discriminator_optimizer tr),
         ''best_valid_value_accuracy'' \<mapsto> FloatVal (best_valid_value_accuracy tr),
         ''best_valid_equ_accuracy'' \<mapsto> FloatVal (best_valid_equ_accuracy tr),
         ''best_test_value_accuracy'' \<mapsto> FloatVal (best_test_value_accuracy tr),
         ''best_test_equ_accuracy'' \<mapsto> FloatVal (best_test_equ_accuracy tr)]\<rparr>"

text \<open>\<^verbatim>\<open>SeqGANTrainer._load_checkpoint\<close> (lines 964 to 975).\<close>

definition SeqGAN_load_checkpoint ::
  "'p seqgan_trainer \<Rightarrow> 'p seqgan_world \<Rightarrow> error + 'p seqgan_trainer" where
  "SeqGAN_load_checkpoint tr w =
     err_bind (torch_load (checkpoint_file w)) (\<lambda>check_pnt.
     err_bind (get_model check_pnt ''model'') (\<lambda>m.
     err_bind (get_optim check_pnt ''generator_optimizer'') (\<lambda>g.
     err_bind (get_optim check_pnt ''discriminator_optimizer'') (\<lambda>d.
     err_bind (get_int check_pnt ''start_epoch'') (\<lambda>se.
     err_bind (get_float check_pnt ''value_acc'') (\<lambda>va.
     err_bind (get_float check_pnt ''equ_acc'') (\<lambda>ea.
       Inr (tr\<lparr>model := m, generator_optimizer := g, discriminator_optimizer := d,
               start_epoch := se, best_value_accuracy := Some va,
               best_equ_accuracy := Some ea\<rparr>))))))))"

text \<open>
  The argument \<^verbatim>\<open>self.dataloader.dataset.out_symbol2idx[PAD_TOKEN]\<close> of the call of
  \<^verbatim>\<open>_build_loss\<close> that ends \<^verbatim>\<open>__init__\<close>.  The constant \<^verbatim>\<open>PAD_TOKEN\<close> is imported
  from a module outside this file and is the parameter \<open>pad_token\<close>; the loss objects
  that \<^verbatim>\<open>_build_loss\<close> creates belong to the collaborators.
\<close>

definition out_pad_index ::
  "('m, 'o, 'b, 'y) collab_scheme \<Rightarrow> string \<Rightarrow> error + int" where
  "out_pad_index env pad_token =
     (case out_symbol2idx (the_dataset env) pad_token of
        None \<Rightarrow> Inl (KeyError pad_token)
      | Some pad \<Rightarrow> Inr pad)"

text \<open>
  \<^verbatim>\<open>SeqGANTrainer.__init__\<close> (lines 933 to 938): the attributes of
  \<^verbatim>\<open>AbstractTrainer.__init__\<close>, \<^verbatim>\<open>_build_optimizer\<close>, \<^verbatim>\<open>_load_checkpoint\<close> when
  resuming, and \<^verbatim>\<open>_build_loss\<close>.
\<close>

definition SeqGANTrainer_init ::
  "config \<Rightarrow> ('p seqgan_model, 'p adam, 'b, 'y) collab_scheme \<Rightarrow> string \<Rightarrow> 'p seqgan_model
     \<Rightarrow> 'p seqgan_world \<Rightarrow> error + 'p seqgan_trainer" where
  "SeqGANTrainer_init cfg env pad_token m w =
     (let tr = SeqGAN_build_optimizer cfg (AbstractTrainer_init m)
      in err_bind (if resume cfg then SeqGAN_load_checkpoint tr w else Inr tr) (\<lambda>tr'.
         err_bind (out_pad_index env pad_token) (\<lambda>pad. Inr tr')))"

text \<open>
  The target of a batch in the adversarial trainer.  With shared vocabularies the code
  calls \<^verbatim>\<open>self._idx2word_2idx\<close>, a method that neither \<^verbatim>\<open>SeqGANTrainer\<close> nor
  \<^verbatim>\<open>AbstractTrainer\<close> defines.
\<close>

definition SeqGAN_batch_target ::
  "config \<Rightarrow> ('m, 'o, 'b, 'y) collab_scheme \<Rightarrow> 'b \<Rightarrow> error + int list list" where
  "SeqGAN_batch_target cfg env batch =
     (if share_vocab cfg then Inl (AttributeError ''_idx2word_2idx'')
      else Inr (tensor_rows (batch_equation env batch)))"

text \<open>
  \<^verbatim>\<open>SeqGANTrainer.get_reward\<close> (lines 1028 to 1040).  The loop runs over
  \<^verbatim>\<open>range(len(monte_carlo_outputs))\<close>; \<open>idx\<close> counts the roll-outs already consumed.
\<close>

fun get_reward_loop ::
  "config \<Rightarrow> ('m, 'o, 'b, 'r, 'y) seqgan_collab_scheme \<Rightarrow> 'm \<Rightarrow> tensor2d
     \<Rightarrow> (nat \<Rightarrow> rat) list \<Rightarrow> nat \<Rightarrow> 'r list \<Rightarrow> number \<Rightarrow> error + number" where
  "get_reward_loop cfg env m outputs token_logits idx [] rewards = Inr rewards"
| "get_reward_loop cfg env m outputs token_logits idx (rollout # rollouts) rewards =
     (let batch_size = t_rows outputs;
          reward = rollout_reward env m rollout batch_size
      in if idx \<ge> t_cols outputs then Inl IndexError
         else
          (let mask = map (\<lambda>b. t_at outputs b idx \<noteq> out_pad_token cfg) [0..<batch_size]
           in if idx \<ge> length token_logits then Inl IndexError
              else
               (let reward' = map (\<lambda>b. reward b * (token_logits ! idx) b
                                         * (if mask ! b then 1 else 0)) [0..<batch_size];
                    mask_sum = count_True mask
                in get_reward_loop cfg env m outputs token_logits (idx + 1) rollouts
                     (if mask_sum \<noteq> 0
                      then add_tensor rewards (sum_list reward' / of_nat mask_sum)
                      else rewards))))"

definition get_reward ::
  "config \<Rightarrow> ('m, 'o, 'b, 'r, 'y) seqgan_collab_scheme \<Rightarrow> 'm \<Rightarrow> tensor2d \<Rightarrow> 'r list
     \<Rightarrow> (nat \<Rightarrow> rat) list \<Rightarrow> error + number" where
  "get_reward cfg env m outputs monte_carlo_outputs token_logits =
     (case get_reward_loop cfg env m outputs token_logits 0 monte_carlo_outputs (PyInt 0) of
        Inl e \<Rightarrow> Inl e
      | Inr rewards \<Rightarrow> Inr (neg_number rewards))"

text \<open>
  \<^verbatim>\<open>SeqGANTrainer._train_batch\<close> (lines 1042 to 1067): the generator loss from
  \<^verbatim>\<open>get_reward\<close>, then the discriminator loss.
\<close>

definition SeqGAN_train_batch ::
  "config \<Rightarrow> ('m, 'o, 'b, 'r, 'y) seqgan_collab_scheme \<Rightarrow> 'm \<Rightarrow> 'b \<Rightarrow> error + number \<times> rat" where
  "SeqGAN_train_batch cfg env m batch =
     (case generator_forward env m batch of
        (outputs, monte_carlo_outputs, P) \<Rightarrow>
          err_bind (get_reward cfg env m outputs monte_carlo_outputs P) (\<lambda>g_loss.
          err_bind (SeqGAN_batch_target cfg env batch) (\<lambda>batch_equation.
            Inr (g_loss, disc_loss env m batch (concat batch_equation)))))"

text \<open>
  \<^verbatim>\<open>SeqGANTrainer._train_epoch\<close> (lines 1084 to 1101).  \<^verbatim>\<open>g_batch_loss.backward()\<close>
  needs a tensor: an int or a float has no method \<^verbatim>\<open>backward\<close>.
\<close>

fun SeqGAN_train_epoch_loop ::
  "config \<Rightarrow> ('p seqgan_model, 'p adam, 'b, 'r, 'y) seqgan_collab_scheme \<Rightarrow> 'b list
     \<Rightarrow> 'p seqgan_trainer \<times> number \<times> rat \<Rightarrow> error + 'p seqgan_trainer \<times> number \<times> rat" where
  "SeqGAN_train_epoch_loop cfg env [] acc = Inr acc"
| "SeqGAN_train_epoch_loop cfg env (batch # batches) (tr, g_loss_total, d_loss_total) =
     (case SeqGAN_train_batch cfg env (model tr) batch of
        Inl e \<Rightarrow> Inl e
      | Inr (g_batch_loss, d_batch_loss) \<Rightarrow>
         (case g_batch_loss of
            PyTensor g \<Rightarrow>
              (case opt_step env (generator_optimizer tr)
                      (reward_backward env batch (model tr)) of
                 (m1, gopt) \<Rightarrow>
                  (case opt_step env (discriminator_optimizer tr)
                          (disc_backward env batch m1) of
                     (m2, dopt) \<Rightarrow>
                       SeqGAN_train_epoch_loop cfg env batches
                         (tr\<lparr>model := m2, generator_optimizer := gopt,
                             discriminator_optimizer := dopt\<rparr>,
                          add_number g_loss_total g_batch_loss,
                          d_loss_total + d_batch_loss)))
          | _ \<Rightarrow> Inl (AttributeError ''backward'')))"

definition SeqGAN_train_epoch ::
  "config \<Rightarrow> ('p seqgan_model, 'p adam, 'b, 'r, 'y) seqgan_collab_scheme
     \<Rightarrow> 'p seqgan_trainer \<Rightarrow> error + 'p seqgan_trainer \<times> number \<times> rat" where
  "SeqGAN_train_epoch cfg env tr =
     SeqGAN_train_epoch_loop cfg env (load_data env Train) (tr, PyFloat 0, 0)"

text \<open>
  The two pre-training phases, \<^verbatim>\<open>train_generator\<close> (lines 977 to 997) and
  \<^verbatim>\<open>train_discriminator\<close> (lines 999 to 1026): twenty passes over the training split,
  each followed by a printed average \<^verbatim>\<open>loss_total / self.train_batch_nums\<close>.
\<close>

fun generator_pretrain_batches ::
  "config \<Rightarrow> ('p seqgan_model, 'p adam, 'b, 'r, 'y) seqgan_collab_scheme \<Rightarrow> 'b list
     \<Rightarrow> 'p seqgan_trainer \<times> rat \<Rightarrow> error + 'p seqgan_trainer \<times> rat" where
  "generator_pretrain_batches cfg env [] acc = Inr acc"
| "generator_pretrain_batches cfg env (batch # batches) (tr, loss_total) =
     (case SeqGAN_batch_target cfg env batch of
        Inl e \<Rightarrow> Inl e
      | Inr target \<Rightarrow>
         (case opt_step env (generator_optimizer tr) (backward env batch (model tr)) of
            (m1, gopt) \<Rightarrow>
              generator_pretrain_batches cfg env batches
                (tr\<lparr>model := m1, generator_optimizer := gopt\<rparr>,
                 loss_total + get_loss env (model tr) batch (concat target))))"

fun discriminator_pretrain_batches ::
  "config \<Rightarrow> ('p seqgan_model, 'p adam, 'b, 'r, 'y) seqgan_collab_scheme \<Rightarrow> 'b list
     \<Rightarrow> 'p seqgan_trainer \<times> rat \<Rightarrow> error + 'p seqgan_trainer \<times> rat" where
  "discriminator_pretrain_batches cfg env [] acc = Inr acc"
| "discriminator_pretrain_batches cfg env (batch # batches) (tr, loss_total) =
     (case SeqGAN_batch_target cfg env batch of
        Inl e \<Rightarrow> Inl e
      | Inr target \<Rightarrow>
         (case opt_step env (discriminator_optimizer tr)
                 (disc_backward env batch (model tr)) of
            (m1, dopt) \<Rightarrow>
              discriminator_pretrain_batches cfg env batches
                (tr\<lparr>model := m1, discriminator_optimizer := dopt\<rparr>,
                 loss_total + disc_loss env (model tr) batch (concat target))))"

fun pretrain_epochs ::
  "('t \<times> rat \<Rightarrow> error + 't \<times> rat) \<Rightarrow> int \<Rightarrow> nat \<Rightarrow> 't \<Rightarrow> error + 't" where
  "pretrain_epochs run_batches train_batch_nums 0 tr = Inr tr"
| "pretrain_epochs run_batches train_batch_nums (Suc n) tr =
     (case run_batches (tr, 0) of
        Inl e \<Rightarrow> Inl e
      | Inr (tr', loss_total) \<Rightarrow>
          if train_batch_nums = 0 then Inl ZeroDivisionError
          else pretrain_epochs run_batches train_batch_nums n tr')"

definition train_generator ::
  "config \<Rightarrow> ('p seqgan_model, 'p adam, 'b, 'r, 'y) seqgan_collab_scheme \<Rightarrow> int
     \<Rightarrow> 'p seqgan_trainer \<Rightarrow> error + 'p seqgan_trainer" where
  "train_generator cfg env train_batch_nums tr =
     pretrain_epochs (generator_pretrain_batches cfg env (load_data env Train))
       train_batch_nums 20 tr"

definition train_discriminator ::
  "config \<Rightarrow> ('p seqgan_model, 'p adam, 'b, 'r, 'y) seqgan_collab_scheme \<Rightarrow> int
     \<Rightarrow> 'p seqgan_trainer \<Rightarrow> error + 'p seqgan_trainer" where
  "train_discriminator cfg env train_batch_nums tr =
     pretrain_epochs (discriminator_pretrain_batches cfg env (load_data env Train))
       train_batch_nums 20 tr"

text \<open>
  \<^verbatim>\<open>SeqGANTrainer._eval_batch\<close> and \<^verbatim>\<open>SeqGANTrainer.evaluate(self, eval_set)\<close>.  A
  call site passes the argument or not: a call without it cannot bind \<^verbatim>\<open>eval_set\<close>.
\<close>

definition SeqGAN_eval_batch ::
  "config \<Rightarrow> ('m, 'o, 'b, 'y) collab_scheme \<Rightarrow> 'm \<Rightarrow> 'b \<Rightarrow> error + bool list \<times> bool list" where
  "SeqGAN_eval_batch cfg env m batch =
     err_bind (SeqGAN_batch_target cfg env batch) (\<lambda>target.
       let results = map (\<lambda>(idx, row). evaluator_result env m batch idx row)
                         (zip [0..<length target] target)
       in Inr (map fst results, map snd results))"

definition SeqGAN_evaluate ::
  "config \<Rightarrow> ('m, 'o, 'b, 'y) collab_scheme \<Rightarrow> 'm \<Rightarrow> dataset_type option
     \<Rightarrow> error + rat \<times> rat \<times> nat \<times> string" where
  "SeqGAN_evaluate cfg env m args =
     (case args of
        None \<Rightarrow> Inl (TypeError ''evaluate() missing 1 required positional argument: eval_set'')
      | Some eval_set \<Rightarrow>
          evaluate (SeqGAN_eval_batch cfg env m) (load_data env) (time_cost env) eval_set)"

text \<open>
  One iteration of the loop of \<^verbatim>\<open>SeqGANTrainer.fit\<close> (lines 1113 to 1129); the call at
  line 1121 is \<^verbatim>\<open>self.evaluate()\<close>.
\<close>

definition SeqGAN_fit_epoch ::
  "config \<Rightarrow> ('p seqgan_model, 'p adam, 'b, 'r, 'y) seqgan_collab_scheme \<Rightarrow> int \<Rightarrow> int
     \<Rightarrow> 'p seqgan_trainer \<times> 'p seqgan_world
     \<Rightarrow> error + 'p seqgan_trainer \<times> 'p seqgan_world" where
  "SeqGAN_fit_epoch cfg env train_batch_nums epo s =
     (case s of (tr, w) \<Rightarrow>
      (case SeqGAN_train_epoch cfg env (tr\<lparr>epoch_i := epo + 1\<rparr>) of
         Inl e \<Rightarrow> Inl e
       | Inr (tr1, g_loss_total, d_loss_total) \<Rightarrow>
          if train_batch_nums = 0 then Inl ZeroDivisionError
          else
           (let w1 = w\<lparr>trace := trace w @ [TrainEpoch (epoch_i tr1)]\<rparr>
            in (case (if epo mod 2 = 0 \<or> epo > epoch_nums cfg - 5
                      then
                       (case SeqGAN_evaluate cfg env (model tr1) None of
                          Inl e \<Rightarrow> Inl e
                        | Inr (equation_ac, value_ac, eval_total, test_time_cost) \<Rightarrow>
                           (case best_value_accuracy tr1 of
                              None \<Rightarrow> Inl (AttributeError ''best_value_accuracy'')
                            | Some best \<Rightarrow>
                                if value_ac \<ge> best
                                then (let tr2 = tr1\<lparr>best_value_accuracy := Some value_ac,
                                                     best_equ_accuracy := Some equation_ac\<rparr>
                                      in Inr (tr2, save_model tr2 w1))
                                else Inr (tr1, w1)))
                      else Inr (tr1, w1)) of
                  Inl e \<Rightarrow> Inl e
                | Inr (tr3, w3) \<Rightarrow>
                    if epo mod 5 = 0 then Inr (tr3, SeqGAN_save_checkpoint tr3 w3)
                    else Inr (tr3, w3)))))"

fun SeqGAN_fit_loop ::
  "config \<Rightarrow> ('p seqgan_model, 'p adam, 'b, 'r, 'y) seqgan_collab_scheme \<Rightarrow> int \<Rightarrow> int list
     \<Rightarrow> 'p seqgan_trainer \<times> 'p seqgan_world
     \<Rightarrow> error + 'p seqgan_trainer \<times> 'p seqgan_world" where
  "SeqGAN_fit_loop cfg env train_batch_nums [] s = Inr s"
| "SeqGAN_fit_loop cfg env train_batch_nums (epo # epos) s =
     (case SeqGAN_fit_epoch cfg env train_batch_nums epo s of
        Inl e \<Rightarrow> Inl e
      | Inr s' \<Rightarrow> SeqGAN_fit_loop cfg env train_batch_nums epos s')"

definition SeqGAN_fit ::
  "config \<Rightarrow> ('p seqgan_model, 'p adam, 'b, 'r, 'y) seqgan_collab_scheme
     \<Rightarrow> 'p seqgan_trainer \<times> 'p seqgan_world
     \<Rightarrow> error + 'p seqgan_trainer \<times> 'p seqgan_world" where
  "SeqGAN_fit cfg env s =
     (case s of (tr, w) \<Rightarrow>
      err_bind (train_batch_nums_of cfg env) (\<lambda>train_batch_nums.
      err_bind (train_generator cfg env train_batch_nums tr) (\<lambda>tr1.
      err_bind (train_discriminator cfg env train_batch_nums tr1) (\<lambda>tr2.
        SeqGAN_fit_loop cfg env train_batch_nums
          [start_epoch tr2..epoch_nums cfg - 1] (tr2, w)))))"

section \<open>Observations on the event sequence\<close>

text \<open>
  The calls of \<^verbatim>\<open>evaluate\<close> recorded in an event sequence, in order, by the split they
  were given; and, for comparison, the calls that a schedule "validation then test on
  every epoch whose index is divisible by \<open>period\<close> or exceeds \<open>n - 5\<close>" prescribes for a
  list of epoch indices.
\<close>

fun evaluate_calls :: "event list \<Rightarrow> dataset_type list" where
  "evaluate_calls [] = []"
| "evaluate_calls (Evaluate ds # es) = ds # evaluate_calls es"
| "evaluate_calls (TrainEpoch n # es) = evaluate_calls es"
| "evaluate_calls (Info l # es) = evaluate_calls es"

definition scheduled_evaluations :: "int \<Rightarrow> int \<Rightarrow> int list \<Rightarrow> dataset_type list" where
  "scheduled_evaluations period n epos =
     concat (map (\<lambda>epo. if epo mod period = 0 \<or> epo > n - 5 then [Valid, Test] else []) epos)"

section \<open>Concrete instances\<close>

text \<open>
  The vocabulary of the shared-vocabulary scenario: the input indices 3, 7 and 2 are the
  words plus, 7 and x, which the output vocabulary indexes as 1, 5 and 9.  The second
  dataset lacks the word x in its output vocabulary.
\<close>

definition ex_dataset :: dataset where
  "ex_dataset = \<lparr>in_idx2word = [3 \<mapsto> ''plus'', 7 \<mapsto> ''7'', 2 \<mapsto> ''x''],
                 out_symbol2idx = [''plus'' \<mapsto> 1, ''7'' \<mapsto> 5, ''x'' \<mapsto> 9],
                 generate_list = [''7'']\<rparr>"

definition ex_dataset_missing :: dataset where
  "ex_dataset_missing = \<lparr>in_idx2word = [3 \<mapsto> ''plus'', 7 \<mapsto> ''7'', 2 \<mapsto> ''x''],
                         out_symbol2idx = [''plus'' \<mapsto> 1, ''7'' \<mapsto> 5],
                         generate_list = [''7'']\<rparr>"

definition ex_row :: "nat \<Rightarrow> nat \<Rightarrow> int" where
  "ex_row b idx = [3, 7, 2] ! idx"

definition ex_equation :: tensor2d where
  "ex_equation = \<lparr>t_rows = 1, t_cols = 3, t_at = ex_row\<rparr>"

definition ex_reindexed :: "nat \<Rightarrow> nat \<Rightarrow> int" where
  "ex_reindexed b idx = [1, 5, 9] ! idx"

text \<open>
  A small run of the single-optimizer trainer: two epochs, one batch of four examples in
  every split; the model is the number of optimizer steps taken.  After the first epoch
  two of the four examples are right in equation and in value; after the second epoch
  three are right in value and one in equation.
\<close>

definition ex_cfg :: config where
  "ex_cfg = \<lparr>train_batch_size = 4, epoch_nums = 2, resume = False, share_vocab = False,
             learning_rate = 1 / 1000, weight_decay = 0, step_size = 5, out_pad_token = 0\<rparr>"

definition ex_batch_equation :: tensor2d where
  "ex_batch_equation = \<lparr>t_rows = 4, t_cols = 1, t_at = (\<lambda>b idx. 3)\<rparr>"

definition ex_result :: "nat \<Rightarrow> nat \<Rightarrow> nat \<Rightarrow> int list \<Rightarrow> bool \<times> bool" where
  "ex_result m batch idx row = (if m = 1 then (idx < 2, idx < 2) else (idx < 3, idx < 1))"

definition ex_load_data :: "dataset_type \<Rightarrow> nat list" where
  "ex_load_data ds = [0]"

definition ex_no_data :: "dataset_type \<Rightarrow> nat list" where
  "ex_no_data ds = []"

definition ex_env :: "(nat, nat, nat) collab" where
  "ex_env = \<lparr>load_data = ex_load_data, trainset_nums = 4, the_dataset = ex_dataset,
             batch_equation = (\<lambda>b. ex_batch_equation), get_loss = (\<lambda>m b t. 1),
             backward = (\<lambda>b m. m), opt_step = (\<lambda>opt m. (m + 1, opt + 1)),
             evaluator_result = ex_result, time_cost = ''0s''\<rparr>"

definition ex_world :: "(nat, nat, unit) world" where
  "ex_world = \<lparr>trained_model_file = None, checkpoint_file = None, trace = []\<rparr>"

definition ex_trainer :: "(nat, nat) trainer" where
  "ex_trainer = \<lparr>model = 0, best_valid_equ_accuracy = 0, best_valid_value_accuracy = 0,
                 best_test_equ_accuracy = 0, best_test_value_accuracy = 0,
                 start_epoch = 0, epoch_i = 0, optimizer = 0\<rparr>"

definition ex_trainer_saved :: "(nat, nat) trainer" where
  "ex_trainer_saved = ex_trainer\<lparr>epoch_i := 1\<rparr>"

text \<open>
  A tree-decoder model with one parameter in each submodule, and a run of twenty epochs
  over it.
\<close>

definition ex_gts_model :: "nat gts_model" where
  "ex_gts_model = \<lparr>embedder = [1], encoder = [2], decoder = [3], node_generater = [4],
                   merge = [5]\<rparr>"

definition ex_gts_cfg :: config where
  "ex_gts_cfg = \<lparr>train_batch_size = 4, epoch_nums = 20, resume = False, share_vocab = False,
                 learning_rate = 1 / 1000, weight_decay = 0, step_size = 5, out_pad_token = 0\<rparr>"

definition ex_adam_step :: "nat adam \<Rightarrow> nat gts_model \<Rightarrow> nat gts_model \<times> nat adam" where
  "ex_adam_step opt m = (m, opt\<lparr>adam_state := adam_state opt + 1\<rparr>)"

definition ex_gts_result :: "nat gts_model \<Rightarrow> nat \<Rightarrow> nat \<Rightarrow> int list \<Rightarrow> bool \<times> bool" where
  "ex_gts_result m batch idx row = (True, False)"

definition ex_gts_env :: "(nat gts_model, nat adam, nat) collab" where
  "ex_gts_env = \<lparr>load_data = ex_load_data, trainset_nums = 4, the_dataset = ex_dataset,
                 batch_equation = (\<lambda>b. ex_batch_equation), get_loss = (\<lambda>m b t. 1),
                 backward = (\<lambda>b m. m), opt_step = ex_adam_step,
                 evaluator_result = ex_gts_result, time_cost = ''0s''\<rparr>"

definition ex_gts_trainer :: "nat gts_trainer" where
  "ex_gts_trainer = GTS_build_optimizer ex_gts_cfg (AbstractTrainer_init ex_gts_model)"

definition ex_gts_world :: "nat gts_world" where
  "ex_gts_world = \<lparr>trained_model_file = None, checkpoint_file = None, trace = []\<rparr>"

text \<open>
  An adversarial model; a generated batch without padding, with one roll-out; and a
  generated batch that is padding throughout, with two roll-outs.  The target tensor of
  every batch of the run holds the token 3 at every position, which is the padding token
  of the configuration \<open>ex_pad_cfg\<close>; the generator's tokens are all 5.
\<close>

definition ex_seqgan_model :: "nat seqgan_model" where
  "ex_seqgan_model = \<lparr>generator = [1], discriminator = [2]\<rparr>"

definition ex_seqgan_trainer :: "nat seqgan_trainer" where
  "ex_seqgan_trainer = SeqGAN_build_optimizer ex_cfg (AbstractTrainer_init ex_seqgan_model)"

definition ex_seqgan_world :: "nat seqgan_world" where
  "ex_seqgan_world = \<lparr>trained_model_file = None, checkpoint_file = None, trace = []\<rparr>"

definition ex_pad_outputs :: tensor2d where
  "ex_pad_outputs = \<lparr>t_rows = 2, t_cols = 2, t_at = (\<lambda>b idx. 0)\<rparr>"

definition ex_outputs :: tensor2d where
  "ex_outputs = \<lparr>t_rows = 4, t_cols = 1, t_at = (\<lambda>b idx. 5)\<rparr>"

definition ex_logits :: "nat \<Rightarrow> rat" where
  "ex_logits b = 1"

definition ex_generator_forward ::
  "nat seqgan_model \<Rightarrow> nat \<Rightarrow> tensor2d \<times> unit list \<times> (nat \<Rightarrow> rat) list" where
  "ex_generator_forward m batch = (ex_outputs, [()], [ex_logits])"

definition ex_rollout_reward :: "nat seqgan_model \<Rightarrow> unit \<Rightarrow> nat \<Rightarrow> nat \<Rightarrow> rat" where
  "ex_rollout_reward m rollout batch_size b = 1 / 2"

definition ex_seqgan_step :: "nat adam \<Rightarrow> nat seqgan_model \<Rightarrow> nat seqgan_model \<times> nat adam" where
  "ex_seqgan_step opt m = (m, opt\<lparr>adam_state := adam_state opt + 1\<rparr>)"

definition ex_seqgan_result ::
  "nat seqgan_model \<Rightarrow> nat \<Rightarrow> nat \<Rightarrow> int list \<Rightarrow> bool \<times> bool" where
  "ex_seqgan_result m batch idx row = (True, False)"

definition ex_seqgan_dataset :: dataset where
  "ex_seqgan_dataset = \<lparr>in_idx2word = [0 \<mapsto> ''<PAD>'', 3 \<mapsto> ''plus''],
                        out_symbol2idx = [''<PAD>'' \<mapsto> 0, ''plus'' \<mapsto> 3],
                        generate_list = []\<rparr>"

definition ex_pad_cfg :: config where
  "ex_pad_cfg = ex_cfg\<lparr>out_pad_token := 3\<rparr>"

definition ex_seqgan_env :: "(nat seqgan_model, nat adam, nat, unit) seqgan_collab" where
  "ex_seqgan_env =
     \<lparr>load_data = ex_load_data, trainset_nums = 4, the_dataset = ex_seqgan_dataset,
      batch_equation = (\<lambda>b. ex_batch_equation), get_loss = (\<lambda>m b t. 1),
      backward = (\<lambda>b m. m), opt_step = ex_seqgan_step,
      evaluator_result = ex_seqgan_result, time_cost = ''0s'',
      generator_forward = ex_generator_forward, rollout_reward = ex_rollout_reward,
      disc_loss = (\<lambda>m b t. 1), reward_backward = (\<lambda>b m. m), disc_backward = (\<lambda>b m. m)\<rparr>"

section \<open>Basic lemmas\<close>

text \<open>
  Rewrite rules for the error monad and for the recorded calls, and the unfolding sets
  that evaluate the concrete runs.
\<close>

lemma err_bind_simps [simp]:
  "err_bind (Inl e) f = Inl e"
  "err_bind (Inr x) f = f x"
  by (simp_all add: err_bind_def)

lemma evaluate_calls_append [simp]:
  "evaluate_calls (xs @ ys) = evaluate_calls xs @ evaluate_calls ys"
  by (induction xs rule: evaluate_calls.induct) simp_all

lemma upto_0_1: "[0..(1::int)] = [0, 1]"
  by (simp add: upto_rec1)

lemmas ex_trainer_defs =
  Trainer_fit_epoch_def Trainer_train_epoch_def Trainer_train_batch_def
  eval_point_def evaluate_def Trainer_eval_batch_def batch_target_def ex_cfg_def ex_env_def
  tensor_rows_def ex_batch_equation_def ex_result_def count_True_def ex_load_data_def
  py_truediv_def ex_trainer_def ex_world_def save_model_def Trainer_save_checkpoint_def
  upt_rec numeral_eq_Suc

lemmas ex_gts_defs =
  GTS_fit_epoch_def GTS_train_epoch_def GTS_train_batch_def GTS_optimizer_step_def
  GTS_scheduler_step_def StepLR_step_def StepLR_def Adam_def GTS_build_optimizer_def
  AbstractTrainer_init_def gts_parameters_def GTS_eval_batch_def GTS_save_checkpoint_def
  eval_point_def evaluate_def ex_gts_cfg_def ex_gts_env_def ex_gts_model_def
  ex_gts_trainer_def ex_gts_world_def ex_adam_step_def ex_gts_result_def ex_dataset_def
  tensor_rows_def ex_batch_equation_def count_True_def ex_load_data_def
  py_truediv_def save_model_def upt_rec numeral_eq_Suc

lemmas ex_seqgan_defs =
  SeqGAN_fit_def SeqGAN_fit_epoch_def SeqGAN_train_epoch_def SeqGAN_train_batch_def
  SeqGAN_batch_target_def SeqGAN_evaluate_def SeqGAN_build_optimizer_def
  train_generator_def train_discriminator_def train_batch_nums_of_def py_int_trunc_def
  get_reward_def neg_number_def add_tensor_def add_number_def number_val_def
  AbstractTrainer_init_def Adam_def ex_seqgan_env_def ex_seqgan_trainer_def
  ex_seqgan_dataset_def
  ex_seqgan_world_def ex_seqgan_model_def ex_seqgan_step_def ex_generator_forward_def
  ex_rollout_reward_def ex_logits_def ex_outputs_def ex_cfg_def ex_load_data_def
  ex_batch_equation_def tensor_rows_def count_True_def upt_rec numeral_eq_Suc

section \<open>Properties of the re-indexing\<close>

lemma equation_loop_ok:
  assumes "\<forall>idx \<in> set idxs. word_index ds (t_at t b idx) = Some (f idx)"
  shows "equation_loop ds t b idxs = Inr (map f idxs)"
  using assms
proof (induction idxs)
  case Nil
  show ?case by simp
next
  case (Cons idx idxs)
  from Cons.prems have hd: "word_index ds (t_at t b idx) = Some (f idx)" by simp
  then obtain w where w: "in_idx2word ds (t_at t b idx) = Some w"
    and j: "out_symbol2idx ds w = Some (f idx)"
    by (auto simp: word_index_def Option.bind_eq_Some_conv)
  from Cons have "equation_loop ds t b idxs = Inr (map f idxs)" by simp
  with w j show ?case by simp
qed

lemma batch_loop_ok:
  assumes "\<forall>b \<in> set bs. \<forall>idx < t_cols t. word_index ds (t_at t b idx) = Some (f b idx)"
  shows "batch_loop ds t bs = Inr (map (\<lambda>b. map (f b) [0..<t_cols t]) bs)"
  using assms
proof (induction bs)
  case Nil
  show ?case by simp
next
  case (Cons b bs)
  have "equation_loop ds t b [0..<t_cols t] = Inr (map (f b) [0..<t_cols t])"
    using Cons.prems by (intro equation_loop_ok) simp
  moreover have "batch_loop ds t bs = Inr (map (\<lambda>b. map (f b) [0..<t_cols t]) bs)"
    using Cons by simp
  ultimately show ?case by simp
qed

lemma equation_loop_missing:
  assumes "\<forall>idx \<in> set idxs. t_at t b idx \<in> dom (in_idx2word ds)"
    and "\<exists>idx \<in> set idxs. word_index ds (t_at t b idx) = None"
  shows "\<exists>w. equation_loop ds t b idxs = Inl (KeyError w) \<and> w \<notin> dom (out_symbol2idx ds)"
  using assms
proof (induction idxs)
  case Nil
  then show ?case by simp
next
  case (Cons idx idxs)
  from Cons.prems(1) obtain w where w: "in_idx2word ds (t_at t b idx) = Some w" by auto
  show ?case
  proof (cases "out_symbol2idx ds w")
    case None
    with w show ?thesis by auto
  next
    case (Some j)
    with w have "word_index ds (t_at t b idx) \<noteq> None" by (simp add: word_index_def)
    with Cons.prems(2) have "\<exists>idx \<in> set idxs. word_index ds (t_at t b idx) = None" by auto
    with Cons obtain w' where "equation_loop ds t b idxs = Inl (KeyError w')"
      and "w' \<notin> dom (out_symbol2idx ds)" by auto
    with w Some show ?thesis by simp
  qed
qed

lemma batch_loop_missing:
  assumes "\<forall>b \<in> set bs. \<forall>idx < t_cols t. t_at t b idx \<in> dom (in_idx2word ds)"
    and "\<exists>b \<in> set bs. \<exists>idx < t_cols t. word_index ds (t_at t b idx) = None"
  shows "\<exists>w. batch_loop ds t bs = Inl (KeyError w) \<and> w \<notin> dom (out_symbol2idx ds)"
  using assms
proof (induction bs)
  case Nil
  then show ?case by simp
next
  case (Cons b bs)
  have dom_b: "\<forall>idx \<in> set [0..<t_cols t]. t_at t b idx \<in> dom (in_idx2word ds)"
    using Cons.prems(1) by simp
  show ?case
  proof (cases "\<exists>idx < t_cols t. word_index ds (t_at t b idx) = None")
    case True
    then have "\<exists>idx \<in> set [0..<t_cols t]. word_index ds (t_at t b idx) = None" by auto
    with dom_b obtain w where "equation_loop ds t b [0..<t_cols t] = Inl (KeyError w)"
      and "w \<notin> dom (out_symbol2idx ds)"
      using equation_loop_missing by blast
    then show ?thesis by auto
  next
    case False
    with Cons.prems(2)
    have "\<exists>b \<in> set bs. \<exists>idx < t_cols t. word_index ds (t_at t b idx) = None" by auto
    with Cons obtain w where rest: "batch_loop ds t bs = Inl (KeyError w)"
      and w: "w \<notin> dom (out_symbol2idx ds)" by auto
    from False have "\<forall>idx \<in> set [0..<t_cols t]. word_index ds (t_at t b idx)
        = Some (the (word_index ds (t_at t b idx)))" by auto
    then have "equation_loop ds t b [0..<t_cols t]
        = Inr (map (\<lambda>idx. the (word_index ds (t_at t b idx))) [0..<t_cols t])"
      by (rule equation_loop_ok)
    then obtain eq where "equation_loop ds t b [0..<t_cols t] = Inr eq" by blast
    with rest w show ?thesis by auto
  qed
qed

text \<open>
  Claim C6.  For a tensor of input-vocabulary indices, \<^verbatim>\<open>_idx2word_2idx\<close> maps every
  position through the input-vocabulary word to that word's output-vocabulary index: if
  the double lookup yields \<open>f b idx\<close> at every position, the result is the nested list of
  these values, row by row.  If every index has an input-vocabulary word and the word
  at some position is absent from the output vocabulary, the call raises KeyError for a
  word that the output vocabulary does not hold.
\<close>

theorem idx2word_2idx_double_lookup:
  "((\<forall>b < t_rows t. \<forall>idx < t_cols t. word_index ds (t_at t b idx) = Some (f b idx)) \<longrightarrow>
      idx2word_2idx ds t = Inr (map (\<lambda>b. map (f b) [0..<t_cols t]) [0..<t_rows t])) \<and>
   ((\<forall>b < t_rows t. \<forall>idx < t_cols t. t_at t b idx \<in> dom (in_idx2word ds)) \<and>
    (\<exists>b < t_rows t. \<exists>idx < t_cols t. word_index ds (t_at t b idx) = None) \<longrightarrow>
      (\<exists>w. idx2word_2idx ds t = Inl (KeyError w) \<and> w \<notin> dom (out_symbol2idx ds)))"
proof (intro conjI impI)
  assume "\<forall>b < t_rows t. \<forall>idx < t_cols t. word_index ds (t_at t b idx) = Some (f b idx)"
  then have "\<forall>b \<in> set [0..<t_rows t]. \<forall>idx < t_cols t.
      word_index ds (t_at t b idx) = Some (f b idx)" by simp
  then show "idx2word_2idx ds t = Inr (map (\<lambda>b. map (f b) [0..<t_cols t]) [0..<t_rows t])"
    unfolding idx2word_2idx_def by (rule batch_loop_ok)
next
  assume a: "(\<forall>b < t_rows t. \<forall>idx < t_cols t. t_at t b idx \<in> dom (in_idx2word ds)) \<and>
    (\<exists>b < t_rows t. \<exists>idx < t_cols t. word_index ds (t_at t b idx) = None)"
  then have 1: "\<forall>b \<in> set [0..<t_rows t]. \<forall>idx < t_cols t. t_at t b idx \<in> dom (in_idx2word ds)"
    by simp
  from a have 2: "\<exists>b \<in> set [0..<t_rows t]. \<exists>idx < t_cols t. word_index ds (t_at t b idx) = None"
    by auto
  show "\<exists>w. idx2word_2idx ds t = Inl (KeyError w) \<and> w \<notin> dom (out_symbol2idx ds)"
    unfolding idx2word_2idx_def using 1 2 by (rule batch_loop_missing)
qed

text \<open>
  The scenario of the claim: the row 3, 7, 2 becomes 1, 5, 9; without the word x in the
  output vocabulary the call raises KeyError.
\<close>

theorem idx2word_2idx_double_lookup_witness:
  "idx2word_2idx ex_dataset ex_equation = Inr [[1, 5, 9]] \<and>
   (\<exists>b < t_rows ex_equation. \<exists>idx < t_cols ex_equation.
      word_index ex_dataset_missing (t_at ex_equation b idx) = None) \<and>
   (\<exists>w. idx2word_2idx ex_dataset_missing ex_equation = Inl (KeyError w)
        \<and> w \<notin> dom (out_symbol2idx ex_dataset_missing))"
proof -
  have h1: "\<forall>b < t_rows ex_equation. \<forall>idx < t_cols ex_equation.
      word_index ex_dataset (t_at ex_equation b idx) = Some (ex_reindexed b idx)"
    by (simp add: ex_equation_def ex_dataset_def ex_row_def ex_reindexed_def word_index_def
        less_Suc_eq numeral_3_eq_3)
  have h2: "\<forall>b < t_rows ex_equation. \<forall>idx < t_cols ex_equation.
      t_at ex_equation b idx \<in> dom (in_idx2word ex_dataset_missing)"
    by (simp add: ex_equation_def ex_dataset_missing_def ex_row_def less_Suc_eq numeral_3_eq_3)
  have "word_index ex_dataset_missing (t_at ex_equation 0 2) = None"
    by (simp add: ex_equation_def ex_dataset_missing_def ex_row_def word_index_def)
  then have h3: "\<exists>b < t_rows ex_equation. \<exists>idx < t_cols ex_equation.
      word_index ex_dataset_missing (t_at ex_equation b idx) = None"
    by (auto simp: ex_equation_def intro!: exI [of _ 0] exI [of _ 2])
  have c1: "idx2word_2idx ex_dataset ex_equation = Inr [[1, 5, 9]]"
    using idx2word_2idx_double_lookup [of ex_equation ex_dataset ex_reindexed] h1
    by (simp add: ex_equation_def ex_reindexed_def upt_rec numeral_3_eq_3)
  have c2: "\<exists>w. idx2word_2idx ex_dataset_missing ex_equation = Inl (KeyError w)
        \<and> w \<notin> dom (out_symbol2idx ex_dataset_missing)"
    using idx2word_2idx_double_lookup [of ex_equation ex_dataset_missing ex_reindexed] h2 h3
    by blast
  from h3 c1 c2 show ?thesis by blast
qed

section \<open>Evaluation of an empty split\<close>

text \<open>
  Claim C2 as stated fails: on a split that yields no batch, \<^verbatim>\<open>evaluate\<close> does not
  return \<open>(0, 0, 0, elapsed)\<close>; the division \<^verbatim>\<open>equation_ac / eval_total\<close> raises
  ZeroDivisionError.
\<close>

theorem evaluate_empty_split_counterexample:
  "evaluate (Trainer_eval_batch ex_cfg ex_env 0) ex_no_data ''0s'' Valid = Inl ZeroDivisionError \<and>
   evaluate (Trainer_eval_batch ex_cfg ex_env 0) ex_no_data ''0s'' Valid \<noteq> Inr (0, 0, 0, ''0s'')"
  by (simp add: evaluate_def ex_no_data_def py_truediv_def)

text \<open>
  Claim C2, amended.  For every trainer (every \<open>eval_batch\<close>) and every split that yields
  zero batches, \<^verbatim>\<open>evaluate(split)\<close> raises ZeroDivisionError.
\<close>

theorem evaluate_empty_split_raises:
  "loader eval_set = [] \<Longrightarrow>
     evaluate eval_batch loader test_time_cost eval_set = Inl ZeroDivisionError"
  by (simp add: evaluate_def py_truediv_def)

text \<open>
  The amended claim at the empty test split of the concrete run.
\<close>

theorem evaluate_empty_split_raises_witness:
  "ex_no_data Test = [] \<and>
   evaluate (Trainer_eval_batch ex_cfg ex_env 0) ex_no_data ''0s'' Test = Inl ZeroDivisionError"
  using evaluate_empty_split_raises [of ex_no_data Test "Trainer_eval_batch ex_cfg ex_env 0" "''0s''"]
  by (simp add: ex_no_data_def)

section \<open>Evaluation points and the loop of fit\<close>

text \<open>
  What an evaluation point does to the trainer, the files and the event sequence; what
  training does not touch; and the two properties of one epoch and of the whole loop
  that follow: the best validation value accuracy never decreases, and the recorded
  calls of \<^verbatim>\<open>evaluate\<close> are those of the schedule.
\<close>

lemma eval_point_mono:
  "eval_point eval_batch env valid_set (tr, w) = Inr (tr', w') \<Longrightarrow>
     best_valid_value_accuracy tr \<le> best_valid_value_accuracy tr'"
  by (auto simp: eval_point_def Let_def split: sum.splits prod.splits if_splits)

lemma eval_point_calls:
  "eval_point eval_batch env valid_set (tr, w) = Inr (tr', w') \<Longrightarrow>
     evaluate_calls (trace w') = evaluate_calls (trace w) @ [valid_set, Test]"
  by (auto simp: eval_point_def Let_def save_model_def split: sum.splits prod.splits if_splits)

lemma Trainer_train_epoch_fields:
  "Trainer_train_epoch cfg env tr = Inr (tr1, l) \<Longrightarrow>
     \<exists>m opt. tr1 = tr\<lparr>model := m, optimizer := opt\<rparr>"
  by (auto simp: Trainer_train_epoch_def split: sum.splits prod.splits)

lemma Trainer_fit_epoch_mono:
  assumes "Trainer_fit_epoch cfg env n epo (tr, w) = Inr (tr', w')"
  shows "best_valid_value_accuracy tr \<le> best_valid_value_accuracy tr'"
  using assms
  by (auto simp: Trainer_fit_epoch_def Let_def split: sum.splits prod.splits if_splits
      dest!: Trainer_train_epoch_fields eval_point_mono)

lemma Trainer_fit_epoch_calls:
  assumes "Trainer_fit_epoch cfg env n epo (tr, w) = Inr (tr', w')"
  shows "evaluate_calls (trace w') = evaluate_calls (trace w) @
      (if epo mod 2 = 0 \<or> epo > epoch_nums cfg - 5 then [Valid, Test] else [])"
  using assms
  by (auto simp: Trainer_fit_epoch_def Let_def Trainer_save_checkpoint_def
      split: sum.splits prod.splits if_splits
      dest!: eval_point_calls)

lemma Trainer_fit_loop_mono:
  "Trainer_fit_loop cfg env n epos (tr, w) = Inr (tr', w') \<Longrightarrow>
     best_valid_value_accuracy tr \<le> best_valid_value_accuracy tr'"
proof (induction epos arbitrary: tr w)
  case Nil
  then show ?case by simp
next
  case (Cons epo epos)
  from Cons.prems obtain tr1 w1 where
    step: "Trainer_fit_epoch cfg env n epo (tr, w) = Inr (tr1, w1)"
    and rest: "Trainer_fit_loop cfg env n epos (tr1, w1) = Inr (tr', w')"
    by (auto split: sum.splits)
  from step have "best_valid_value_accuracy tr \<le> best_valid_value_accuracy tr1"
    by (rule Trainer_fit_epoch_mono)
  also from rest have "\<dots> \<le> best_valid_value_accuracy tr'" by (rule Cons.IH)
  finally show ?case .
qed

lemma Trainer_fit_loop_calls:
  "Trainer_fit_loop cfg env n epos (tr, w) = Inr (tr', w') \<Longrightarrow>
     evaluate_calls (trace w') =
       evaluate_calls (trace w) @ scheduled_evaluations 2 (epoch_nums cfg) epos"
proof (induction epos arbitrary: tr w)
  case Nil
  then show ?case by (simp add: scheduled_evaluations_def)
next
  case (Cons epo epos)
  from Cons.prems obtain tr1 w1 where
    step: "Trainer_fit_epoch cfg env n epo (tr, w) = Inr (tr1, w1)"
    and rest: "Trainer_fit_loop cfg env n epos (tr1, w1) = Inr (tr', w')"
    by (auto split: sum.splits)
  from Trainer_fit_epoch_calls [OF step] Cons.IH [OF rest]
  show ?case by (simp add: scheduled_evaluations_def)
qed

lemma GTS_optimizer_step_best [simp]:
  "best_valid_value_accuracy (GTS_optimizer_step env tr) = best_valid_value_accuracy tr"
  by (simp add: GTS_optimizer_step_def split: prod.splits)

lemma GTS_train_epoch_loop_best:
  "GTS_train_epoch_loop env batches (tr, l) = Inr (tr', l') \<Longrightarrow>
     best_valid_value_accuracy tr' = best_valid_value_accuracy tr"
proof (induction batches arbitrary: tr l)
  case Nil
  then show ?case by simp
next
  case (Cons batch batches)
  then show ?case by (auto split: sum.splits)
qed

lemma GTS_scheduler_step_best:
  "GTS_scheduler_step tr = Inr tr' \<Longrightarrow>
     best_valid_value_accuracy tr' = best_valid_value_accuracy tr"
  by (auto simp: GTS_scheduler_step_def err_bind_def split: sum.splits prod.splits)

lemma GTS_fit_epoch_mono:
  assumes "GTS_fit_epoch cfg env n epo (tr, w) = Inr (tr', w')"
  shows "best_valid_value_accuracy tr \<le> best_valid_value_accuracy tr'"
  using assms
  by (auto simp: GTS_fit_epoch_def GTS_train_epoch_def Let_def
      split: sum.splits prod.splits if_splits
      dest!: GTS_train_epoch_loop_best GTS_scheduler_step_best eval_point_mono)

lemma GTS_fit_epoch_calls:
  assumes "GTS_fit_epoch cfg env n epo (tr, w) = Inr (tr', w')"
  shows "evaluate_calls (trace w') = evaluate_calls (trace w) @
      (if epo mod 10 = 0 \<or> epo > epoch_nums cfg - 5 then [Valid, Test] else [])"
  using assms
  by (auto simp: GTS_fit_epoch_def Let_def GTS_save_checkpoint_def
      split: sum.splits prod.splits if_splits
      dest!: eval_point_calls)

lemma GTS_fit_loop_mono:
  "GTS_fit_loop cfg env n epos (tr, w) = Inr (tr', w') \<Longrightarrow>
     best_valid_value_accuracy tr \<le> best_valid_value_accuracy tr'"
proof (induction epos arbitrary: tr w)
  case Nil
  then show ?case by simp
next
  case (Cons epo epos)
  from Cons.prems obtain tr1 w1 where
    step: "GTS_fit_epoch cfg env n epo (tr, w) = Inr (tr1, w1)"
    and rest: "GTS_fit_loop cfg env n epos (tr1, w1) = Inr (tr', w')"
    by (auto split: sum.splits)
  from step have "best_valid_value_accuracy tr \<le> best_valid_value_accuracy tr1"
    by (rule GTS_fit_epoch_mono)
  also from rest have "\<dots> \<le> best_valid_value_accuracy tr'" by (rule Cons.IH)
  finally show ?case .
qed

lemma GTS_fit_loop_calls:
  "GTS_fit_loop cfg env n epos (tr, w) = Inr (tr', w') \<Longrightarrow>
     evaluate_calls (trace w') =
       evaluate_calls (trace w) @ scheduled_evaluations 10 (epoch_nums cfg) epos"
proof (induction epos arbitrary: tr w)
  case Nil
  then show ?case by (simp add: scheduled_evaluations_def)
next
  case (Cons epo epos)
  from Cons.prems obtain tr1 w1 where
    step: "GTS_fit_epoch cfg env n epo (tr, w) = Inr (tr1, w1)"
    and rest: "GTS_fit_loop cfg env n epos (tr1, w1) = Inr (tr', w')"
    by (auto split: sum.splits)
  from GTS_fit_epoch_calls [OF step] Cons.IH [OF rest]
  show ?case by (simp add: scheduled_evaluations_def)
qed

lemma Transformer_fit_epoch_mono:
  assumes "Transformer_fit_epoch cfg env n epo (tr, w) = Inr (tr', w')"
  shows "best_valid_value_accuracy tr \<le> best_valid_value_accuracy tr'"
  using assms
  by (auto simp: Transformer_fit_epoch_def Let_def split: sum.splits prod.splits if_splits
      dest!: Trainer_train_epoch_fields eval_point_mono)

lemma Transformer_fit_loop_mono:
  "Transformer_fit_loop cfg env n epos (tr, w) = Inr (tr', w') \<Longrightarrow>
     best_valid_value_accuracy tr \<le> best_valid_value_accuracy tr'"
proof (induction epos arbitrary: tr w)
  case Nil
  then show ?case by simp
next
  case (Cons epo epos)
  from Cons.prems obtain tr1 w1 where
    step: "Transformer_fit_epoch cfg env n epo (tr, w) = Inr (tr1, w1)"
    and rest: "Transformer_fit_loop cfg env n epos (tr1, w1) = Inr (tr', w')"
    by (auto split: sum.splits)
  from step have "best_valid_value_accuracy tr \<le> best_valid_value_accuracy tr1"
    by (rule Transformer_fit_epoch_mono)
  also from rest have "\<dots> \<le> best_valid_value_accuracy tr'" by (rule Cons.IH)
  finally show ?case .
qed



lemma ex_trainer_loop:
  "\<exists>tr' w'. Trainer_fit_loop ex_cfg ex_env 2 [0, 1] (ex_trainer, ex_world) = Inr (tr', w')
      \<and> best_valid_value_accuracy tr' = 3 / 4
      \<and> evaluate_calls (trace w') = [Valid, Test, Valid, Test]"
  by (simp add: ex_trainer_defs)

lemma ex_gts_loop:
  "\<exists>tr' w'. GTS_fit_loop ex_gts_cfg ex_gts_env 2 [0, 1] (ex_gts_trainer, ex_gts_world) = Inr (tr', w')
      \<and> best_valid_value_accuracy tr' = 1
      \<and> evaluate_calls (trace w') = [Valid, Test]"
  by (simp add: ex_gts_defs)

lemma ex_transformer_loop:
  "\<exists>tr' w'. Transformer_fit_loop ex_cfg ex_env 2 [0, 1] (ex_trainer, ex_world) = Inr (tr', w')
      \<and> best_valid_value_accuracy tr' = 3 / 4"
  by (simp add: ex_trainer_defs Transformer_fit_epoch_def)



text \<open>
  Claim C3 as stated fails: in the concrete run the best validation equation accuracy is
  1/2 after the first evaluation point and 1/4 after the second, because the second
  point has the higher validation value accuracy.
\<close>

theorem best_metrics_monotone_counterexample:
  "map_sum id (best_valid_equ_accuracy \<circ> fst)
     (Trainer_fit_loop ex_cfg ex_env 2 [0] (ex_trainer, ex_world)) = Inr (1 / 2) \<and>
   map_sum id (best_valid_equ_accuracy \<circ> fst)
     (Trainer_fit_loop ex_cfg ex_env 2 [0, 1] (ex_trainer, ex_world)) = Inr (1 / 4)"
  by (simp add: ex_trainer_defs)

text \<open>
  Claim C3, amended.  Within the loop of \<^verbatim>\<open>fit\<close> of the single-optimizer trainers, the
  tree-decoder trainer and the transformer trainer, the best validation value accuracy
  is non-decreasing: after any number of epochs it is at least what it was before them.
  (The other three best-metric fields are overwritten with the values measured at the
  epoch of the best validation value accuracy and may decrease.)
\<close>

theorem best_valid_value_accuracy_monotone:
  "(Trainer_fit_loop cfg env n epos (tr, w) = Inr (tr', w') \<longrightarrow>
      best_valid_value_accuracy tr \<le> best_valid_value_accuracy tr') \<and>
   (GTS_fit_loop cfg genv n epos (gtr, gw) = Inr (gtr', gw') \<longrightarrow>
      best_valid_value_accuracy gtr \<le> best_valid_value_accuracy gtr') \<and>
   (Transformer_fit_loop cfg tenv n epos (ttr, tw) = Inr (ttr', tw') \<longrightarrow>
      best_valid_value_accuracy ttr \<le> best_valid_value_accuracy ttr')"
  by (intro conjI impI)
    (erule Trainer_fit_loop_mono, erule GTS_fit_loop_mono, erule Transformer_fit_loop_mono)

text \<open>
  The amended claim on the concrete runs of the three loops, each of which completes.
\<close>

theorem best_valid_value_accuracy_monotone_witness:
  "(\<exists>tr' w'. Trainer_fit_loop ex_cfg ex_env 2 [0, 1] (ex_trainer, ex_world) = Inr (tr', w')
      \<and> best_valid_value_accuracy ex_trainer \<le> best_valid_value_accuracy tr') \<and>
   (\<exists>tr' w'. GTS_fit_loop ex_gts_cfg ex_gts_env 2 [0, 1] (ex_gts_trainer, ex_gts_world)
        = Inr (tr', w')
      \<and> best_valid_value_accuracy ex_gts_trainer \<le> best_valid_value_accuracy tr') \<and>
   (\<exists>tr' w'. Transformer_fit_loop ex_cfg ex_env 2 [0, 1] (ex_trainer, ex_world) = Inr (tr', w')
      \<and> best_valid_value_accuracy ex_trainer \<le> best_valid_value_accuracy tr')"
proof -
  from ex_trainer_loop obtain tr1 w1 where
    r1: "Trainer_fit_loop ex_cfg ex_env 2 [0, 1] (ex_trainer, ex_world) = Inr (tr1, w1)"
    by blast
  from ex_gts_loop obtain tr2 w2 where
    r2: "GTS_fit_loop ex_gts_cfg ex_gts_env 2 [0, 1] (ex_gts_trainer, ex_gts_world) = Inr (tr2, w2)"
    by blast
  from ex_transformer_loop obtain tr3 w3 where
    r3: "Transformer_fit_loop ex_cfg ex_env 2 [0, 1] (ex_trainer, ex_world) = Inr (tr3, w3)"
    by blast
  have "best_valid_value_accuracy ex_trainer \<le> best_valid_value_accuracy tr1"
    using best_valid_value_accuracy_monotone r1 by blast
  moreover have "best_valid_value_accuracy ex_gts_trainer \<le> best_valid_value_accuracy tr2"
    using best_valid_value_accuracy_monotone r2 by blast
  moreover have "best_valid_value_accuracy ex_trainer \<le> best_valid_value_accuracy tr3"
    using best_valid_value_accuracy_monotone r3 by blast
  ultimately show ?thesis using r1 r2 r3 by blast
qed

text \<open>
  Claim C4 as stated fails: the tree-decoder trainer, in a run of twenty epochs, runs no
  evaluation in the epoch of index 2.
\<close>

theorem evaluation_schedule_counterexample:
  "map_sum id (evaluate_calls \<circ> trace \<circ> snd)
     (GTS_fit_loop ex_gts_cfg ex_gts_env 2 [2] (ex_gts_trainer, ex_gts_world)) = Inr []"
  by (simp add: ex_gts_defs)

text \<open>
  Claim C4, amended.  In the single-equation and multi-equation trainers the loop of
  \<^verbatim>\<open>fit\<close> calls \<^verbatim>\<open>evaluate\<close> on the validation split and then on the test split in
  exactly the epochs whose index is divisible by 2 or greater than \<open>epoch_nums - 5\<close>; in
  the tree-decoder trainer, in exactly the epochs whose index is divisible by 10 or
  greater than \<open>epoch_nums - 5\<close>; and in no other epoch.
\<close>

theorem evaluation_schedule:
  "(Trainer_fit_loop cfg env n epos (tr, w) = Inr (tr', w') \<longrightarrow>
      evaluate_calls (trace w') =
        evaluate_calls (trace w) @ scheduled_evaluations 2 (epoch_nums cfg) epos) \<and>
   (GTS_fit_loop cfg genv n epos (gtr, gw) = Inr (gtr', gw') \<longrightarrow>
      evaluate_calls (trace gw') =
        evaluate_calls (trace gw) @ scheduled_evaluations 10 (epoch_nums cfg) epos)"
  by (intro conjI impI) (erule Trainer_fit_loop_calls, erule GTS_fit_loop_calls)

text \<open>
  The amended claim on the concrete runs: the single-optimizer run of two epochs
  evaluates in both, the tree-decoder run over the epochs 0 and 1 of twenty evaluates in
  epoch 0 only.
\<close>

theorem evaluation_schedule_witness:
  "(\<exists>tr' w'. Trainer_fit_loop ex_cfg ex_env 2 [0, 1] (ex_trainer, ex_world) = Inr (tr', w')
      \<and> evaluate_calls (trace w') = [Valid, Test, Valid, Test]) \<and>
   (\<exists>tr' w'. GTS_fit_loop ex_gts_cfg ex_gts_env 2 [0, 1] (ex_gts_trainer, ex_gts_world)
        = Inr (tr', w')
      \<and> evaluate_calls (trace w') = [Valid, Test])"
proof -
  from ex_trainer_loop obtain tr1 w1 where
    r1: "Trainer_fit_loop ex_cfg ex_env 2 [0, 1] (ex_trainer, ex_world) = Inr (tr1, w1)"
    by blast
  from ex_gts_loop obtain tr2 w2 where
    r2: "GTS_fit_loop ex_gts_cfg ex_gts_env 2 [0, 1] (ex_gts_trainer, ex_gts_world) = Inr (tr2, w2)"
    by blast
  have "evaluate_calls (trace w1) =
      evaluate_calls (trace ex_world) @ scheduled_evaluations 2 (epoch_nums ex_cfg) [0, 1]"
    using evaluation_schedule r1 by blast
  then have c1: "evaluate_calls (trace w1) = [Valid, Test, Valid, Test]"
    by (simp add: scheduled_evaluations_def ex_cfg_def ex_world_def)
  have "evaluate_calls (trace w2) =
      evaluate_calls (trace ex_gts_world) @ scheduled_evaluations 10 (epoch_nums ex_gts_cfg) [0, 1]"
    using evaluation_schedule r2 by blast
  then have c2: "evaluate_calls (trace w2) = [Valid, Test]"
    by (simp add: scheduled_evaluations_def ex_gts_cfg_def ex_gts_world_def)
  from r1 r2 c1 c2 show ?thesis by blast
qed

section \<open>The final summary of fit\<close>

text \<open>
  The last statement of \<^verbatim>\<open>Trainer.fit\<close> raises in every state, so no call of
  \<^verbatim>\<open>Trainer.fit\<close> returns.
\<close>

lemma Trainer_final_log_raises:
  "Trainer_final_log s = Inl (AttributeError ''best_test_equ_accuracyself'')"
  by (simp add: Trainer_final_log_def Trainer_getattr_def Trainer_attribute_names_def
      split: prod.splits)

lemma Trainer_fit_never_returns: "\<exists>e. Trainer_fit cfg env s = Inl e"
  by (cases "train_batch_nums_of cfg env";
      cases "Trainer_fit_loop cfg env (projr (train_batch_nums_of cfg env))
               [start_epoch (fst s)..epoch_nums cfg - 1] s")
    (simp_all add: Trainer_fit_def Trainer_final_log_raises)

text \<open>
  Claim C7 fails on the code: in the concrete run both epochs complete, and \<^verbatim>\<open>fit\<close>
  then raises AttributeError for the name \<^verbatim>\<open>best_test_equ_accuracyself\<close> instead of
  logging the four best metrics.
\<close>

theorem Trainer_fit_final_log_raises:
  "Trainer_fit ex_cfg ex_env (ex_trainer, ex_world)
     = Inl (AttributeError ''best_test_equ_accuracyself'')"
proof -
  from ex_trainer_loop obtain tr' w' where
    "Trainer_fit_loop ex_cfg ex_env 2 [0, 1] (ex_trainer, ex_world) = Inr (tr', w')" by blast
  moreover have "train_batch_nums_of ex_cfg ex_env = Inr 2"
    by (simp add: train_batch_nums_of_def ex_cfg_def ex_env_def py_int_trunc_def)
  moreover have "[start_epoch (fst (ex_trainer, ex_world))..epoch_nums ex_cfg - 1] = [0, 1]"
    by (simp add: ex_trainer_def ex_cfg_def upto_0_1)
  ultimately show ?thesis
    by (simp add: Trainer_fit_def Trainer_final_log_raises)
qed

section \<open>Checkpoint round trip\<close>

text \<open>
  Claim C1 as stated fails.  In the single-optimizer trainer a trainer whose start epoch
  is 0 and whose current epoch is 1 has start epoch 1 after saving and loading; in the
  tree-decoder trainer loading what was just saved raises KeyError for
  \<^verbatim>\<open>embedding_scheduler\<close>; in the adversarial trainer it raises KeyError for
  \<^verbatim>\<open>start_epoch\<close>.
\<close>

theorem checkpoint_round_trip_counterexample:
  "start_epoch ex_trainer_saved = 0 \<and>
   map_sum id start_epoch
     (Trainer_load_checkpoint ex_trainer_saved
        (Trainer_save_checkpoint ex_trainer_saved ex_world)) = Inr 1 \<and>
   GTS_load_checkpoint ex_gts_trainer (GTS_save_checkpoint ex_gts_trainer ex_gts_world)
     = Inl (KeyError ''embedding_scheduler'') \<and>
   SeqGAN_load_checkpoint ex_seqgan_trainer
     (SeqGAN_save_checkpoint ex_seqgan_trainer ex_seqgan_world) = Inl (KeyError ''start_epoch'')"
  by (simp add: ex_trainer_saved_def ex_trainer_def ex_world_def Trainer_load_checkpoint_def
      Trainer_save_checkpoint_def GTS_load_checkpoint_def GTS_save_checkpoint_def
      SeqGAN_load_checkpoint_def SeqGAN_save_checkpoint_def torch_load_def get_model_def
      get_optim_def get_sched_def get_int_def get_float_def dict_get_def)

text \<open>
  Claim C1, amended.  In the single-equation, multi-equation and transformer trainers,
  saving a checkpoint and loading it (into any trainer object \<open>tr0\<close>) returns without
  error; the model, the optimizer state and the four best-accuracy fields are those of
  the saved trainer, and the start epoch is the saved trainer's current epoch
  \<^verbatim>\<open>epoch_i\<close>.
\<close>

theorem Trainer_checkpoint_round_trip:
  "Trainer_load_checkpoint tr0 (Trainer_save_checkpoint tr w) =
     Inr (tr0\<lparr>model := model tr, optimizer := optimizer tr, start_epoch := epoch_i tr,
             best_valid_value_accuracy := best_valid_value_accuracy tr,
             best_valid_equ_accuracy := best_valid_equ_accuracy tr,
             best_test_value_accuracy := best_test_value_accuracy tr,
             best_test_equ_accuracy := best_test_equ_accuracy tr\<rparr>)"
  by (simp add: Trainer_load_checkpoint_def Trainer_save_checkpoint_def torch_load_def
      get_model_def get_optim_def get_int_def get_float_def dict_get_def)

section \<open>The optimizers of the tree-decoder trainer\<close>

text \<open>
  The parameter group of the tree-decoder's \<^verbatim>\<open>decoder_optimizer\<close> is
  \<^verbatim>\<open>self.model.parameters()\<close>.
\<close>

lemma GTS_decoder_optimizer_params:
  "adam_params (decoder_optimizer (GTS_build_optimizer cfg tr)) = gts_parameters (model tr)"
  by (simp add: GTS_build_optimizer_def Adam_def)

text \<open>
  Claim C8 fails on the code: for the model with the parameters 1 to 5, one per
  submodule, the decoder optimizer holds all five parameters, not the decoder's
  parameter 3 alone, and shares the parameter 1 with the embedder optimizer.
\<close>

theorem GTS_decoder_optimizer_overlaps:
  "adam_params (decoder_optimizer ex_gts_trainer) = [1, 2, 3, 4, 5] \<and>
   decoder ex_gts_model = [3] \<and>
   adam_params (embedder_optimizer ex_gts_trainer) = [1] \<and>
   set (adam_params (decoder_optimizer ex_gts_trainer))
     \<inter> set (adam_params (embedder_optimizer ex_gts_trainer)) = {1}"
  by (simp add: ex_gts_trainer_def GTS_build_optimizer_def Adam_def AbstractTrainer_init_def
      ex_gts_model_def gts_parameters_def)

section \<open>The reward of the adversarial phase\<close>

text \<open>
  A step whose mask is false everywhere leaves \<^verbatim>\<open>rewards\<close> as it is.
\<close>

lemma count_True_all_False [simp]: "count_True (map (\<lambda>b. False) xs) = 0"
  by (simp add: count_True_def)

lemma get_reward_loop_all_padding:
  assumes "\<forall>b < t_rows outputs. \<forall>j. idx \<le> j \<and> j < idx + length rollouts
             \<longrightarrow> t_at outputs b j = out_pad_token cfg"
    and "idx + length rollouts \<le> t_cols outputs"
    and "idx + length rollouts \<le> length token_logits"
  shows "get_reward_loop cfg env m outputs token_logits idx rollouts rewards = Inr rewards"
  using assms
proof (induction rollouts arbitrary: idx)
  case Nil
  show ?case by simp
next
  case (Cons rollout rollouts)
  have mask: "map (\<lambda>b. t_at outputs b idx \<noteq> out_pad_token cfg) [0..<t_rows outputs]
      = map (\<lambda>b. False) [0..<t_rows outputs]"
    using Cons.prems(1) by simp
  have rest: "get_reward_loop cfg env m outputs token_logits (idx + 1) rollouts rewards
      = Inr rewards"
    using Cons.prems by (intro Cons.IH) auto
  have cnt: "count_True (map (\<lambda>b. t_at outputs b idx \<noteq> out_pad_token cfg)
      [0..<t_rows outputs]) = 0"
    unfolding mask by simp
  from Cons.prems(2,3) have "idx < t_cols outputs" "idx < length token_logits" by simp_all
  with cnt rest show ?case by (simp add: Let_def)
qed

text \<open>
  Claim C9 as stated fails: the mask of \<^verbatim>\<open>get_reward\<close> is computed from the tokens the
  generator produced, not from the target tokens of the batch.  In the concrete batch
  every target token is the padding token 3, the generator's tokens are all 5, and the
  reward that \<^verbatim>\<open>_train_batch\<close> obtains from \<^verbatim>\<open>get_reward\<close> is the tensor -1/2.
\<close>

theorem reward_padding_targets_counterexample:
  "out_pad_token ex_pad_cfg = 3 \<and>
   tensor_rows (batch_equation ex_seqgan_env 0) = [[3], [3], [3], [3]] \<and>
   generator_forward ex_seqgan_env ex_seqgan_model 0 = (ex_outputs, [()], [ex_logits]) \<and>
   SeqGAN_train_batch ex_pad_cfg ex_seqgan_env ex_seqgan_model 0
     = Inr (PyTensor (- (1 / 2)), 1)"
  by (simp add: ex_pad_cfg_def ex_seqgan_defs)

text \<open>
  Claim C9, amended.  In \<^verbatim>\<open>get_reward\<close>, if every token of the generated tensor
  \<^verbatim>\<open>outputs\<close> (the generator's output, from which the padding mask is computed) is the
  padding token at every step, and \<^verbatim>\<open>outputs\<close> and \<^verbatim>\<open>token_logits\<close> cover every
  step, the reward returned is exactly zero: the int \<open>0\<close> that \<^verbatim>\<open>rewards\<close> started
  from.
\<close>

theorem get_reward_all_padding:
  assumes "\<forall>b < t_rows outputs. \<forall>idx < length monte_carlo_outputs.
             t_at outputs b idx = out_pad_token cfg"
    and "length monte_carlo_outputs \<le> t_cols outputs"
    and "length monte_carlo_outputs \<le> length token_logits"
  shows "get_reward cfg env m outputs monte_carlo_outputs token_logits = Inr (PyInt 0)"
proof -
  have "get_reward_loop cfg env m outputs token_logits 0 monte_carlo_outputs (PyInt 0)
      = Inr (PyInt 0)"
    using assms by (intro get_reward_loop_all_padding) auto
  then show ?thesis by (simp add: get_reward_def neg_number_def)
qed

text \<open>
  The amended claim at the generated batch that is padding throughout.
\<close>

theorem get_reward_all_padding_witness:
  "get_reward ex_cfg ex_seqgan_env ex_seqgan_model ex_pad_outputs [(), ()]
     [ex_logits, ex_logits] = Inr (PyInt 0)"
proof -
  have "\<forall>b < t_rows ex_pad_outputs. \<forall>idx < length [(), ()].
      t_at ex_pad_outputs b idx = out_pad_token ex_cfg"
    by (simp add: ex_pad_outputs_def ex_cfg_def)
  moreover have "length [(), ()] \<le> t_cols ex_pad_outputs" by (simp add: ex_pad_outputs_def)
  moreover have "length [(), ()] \<le> length [ex_logits, ex_logits]" by simp
  ultimately show ?thesis by (rule get_reward_all_padding)
qed

section \<open>The fit of the adversarial trainer\<close>

text \<open>
  An epoch of \<^verbatim>\<open>SeqGANTrainer.fit\<close> that is an evaluation epoch raises; the two
  pre-training phases leave the start epoch alone; a trainer built without resume has no
  attribute \<^verbatim>\<open>best_value_accuracy\<close>, and the exception of an evaluation epoch whose
  training pass returned is the TypeError of the call \<^verbatim>\<open>self.evaluate()\<close>.
\<close>

lemma SeqGAN_fit_epoch_raises:
  assumes "epo mod 2 = 0 \<or> epo > epoch_nums cfg - 5"
  shows "\<exists>e. SeqGAN_fit_epoch cfg env n epo s = Inl e"
  using assms
  by (cases s; cases "SeqGAN_train_epoch cfg env ((fst s)\<lparr>epoch_i := epo + 1\<rparr>)")
    (auto simp: SeqGAN_fit_epoch_def SeqGAN_evaluate_def Let_def split: prod.splits)

lemma SeqGAN_fit_loop_raises:
  assumes "epo \<in> set epos" and "epo mod 2 = 0 \<or> epo > epoch_nums cfg - 5"
  shows "\<exists>e. SeqGAN_fit_loop cfg env n epos s = Inl e"
  using assms(1)
proof (induction epos arbitrary: s)
  case Nil
  then show ?case by simp
next
  case (Cons x epos)
  show ?case
  proof (cases "SeqGAN_fit_epoch cfg env n x s")
    case (Inl e)
    then show ?thesis by simp
  next
    case (Inr s')
    have "\<not> (x mod 2 = 0 \<or> x > epoch_nums cfg - 5)"
    proof
      assume "x mod 2 = 0 \<or> x > epoch_nums cfg - 5"
      from SeqGAN_fit_epoch_raises [OF this]
      obtain e where "SeqGAN_fit_epoch cfg env n x s = Inl e" by blast
      with Inr show False by simp
    qed
    with assms(2) Cons.prems have "epo \<in> set epos" by auto
    with Cons.IH Inr show ?thesis by simp
  qed
qed

lemma generator_pretrain_batches_start:
  "generator_pretrain_batches cfg env batches (tr, l) = Inr (tr', l') \<Longrightarrow>
     start_epoch tr' = start_epoch tr"
  by (induction batches arbitrary: tr l) (auto split: sum.splits prod.splits)

lemma discriminator_pretrain_batches_start:
  "discriminator_pretrain_batches cfg env batches (tr, l) = Inr (tr', l') \<Longrightarrow>
     start_epoch tr' = start_epoch tr"
  by (induction batches arbitrary: tr l) (auto split: sum.splits prod.splits)

lemma pretrain_epochs_start:
  assumes "\<And>tr l tr' l'. run (tr, l) = Inr (tr', l') \<Longrightarrow> start_epoch tr' = start_epoch tr"
    and "pretrain_epochs run n k tr = Inr tr'"
  shows "start_epoch tr' = start_epoch tr"
  using assms(2)
proof (induction k arbitrary: tr)
  case 0
  then show ?case by simp
next
  case (Suc k)
  from Suc.prems obtain tr1 l1 where r: "run (tr, 0) = Inr (tr1, l1)"
    and rest: "pretrain_epochs run n k tr1 = Inr tr'"
    by (auto split: sum.splits if_splits)
  from assms(1) [OF r] Suc.IH [OF rest] show ?case by simp
qed

lemma SeqGAN_init_no_resume:
  "\<not> resume cfg \<Longrightarrow> SeqGANTrainer_init cfg env pad_token m w = Inr tr \<Longrightarrow>
     tr = SeqGAN_build_optimizer cfg (AbstractTrainer_init m) \<and>
     start_epoch tr = 0 \<and> best_value_accuracy tr = None"
  by (auto simp: SeqGANTrainer_init_def out_pad_index_def SeqGAN_build_optimizer_def
      AbstractTrainer_init_def split: option.splits)

lemma ex_seqgan_init:
  "SeqGANTrainer_init ex_cfg ex_seqgan_env ''<PAD>'' ex_seqgan_model ex_seqgan_world
     = Inr ex_seqgan_trainer"
  by (simp add: SeqGANTrainer_init_def out_pad_index_def ex_seqgan_trainer_def ex_cfg_def
      ex_seqgan_env_def ex_seqgan_dataset_def)

lemma SeqGAN_fit_epoch_TypeError:
  assumes "SeqGAN_train_epoch cfg env (tr\<lparr>epoch_i := epo + 1\<rparr>) = Inr r"
    and "n \<noteq> 0"
    and "epo mod 2 = 0 \<or> epo > epoch_nums cfg - 5"
  shows "SeqGAN_fit_epoch cfg env n epo (tr, w)
     = Inl (TypeError ''evaluate() missing 1 required positional argument: eval_set'')"
  using assms
  by (auto simp: SeqGAN_fit_epoch_def SeqGAN_evaluate_def Let_def split: prod.splits)

lemma ex_seqgan_fit:
  "SeqGAN_fit ex_cfg ex_seqgan_env (ex_seqgan_trainer, ex_seqgan_world)
     = Inl (TypeError ''evaluate() missing 1 required positional argument: eval_set'')"
  by (simp add: ex_seqgan_defs upto_0_1)

text \<open>
  Claim C10.  For an adversarial trainer in any state, and so for one constructed with
  resume disabled (whose start epoch is 0), if the range of epochs of \<^verbatim>\<open>fit\<close> holds
  an evaluation epoch (index divisible by 2, or greater than \<open>epoch_nums - 5\<close>),
  \<^verbatim>\<open>fit\<close> raises an exception instead of returning.
\<close>

theorem SeqGAN_fit_raises:
  assumes "epo \<in> set [start_epoch tr..epoch_nums cfg - 1]"
    and "epo mod 2 = 0 \<or> epo > epoch_nums cfg - 5"
  shows "\<exists>e. SeqGAN_fit cfg env (tr, w) = Inl e"
proof (cases "train_batch_nums_of cfg env")
  case (Inl e)
  then show ?thesis by (simp add: SeqGAN_fit_def)
next
  case n: (Inr n)
  show ?thesis
  proof (cases "train_generator cfg env n tr")
    case (Inl e)
    with n show ?thesis by (simp add: SeqGAN_fit_def)
  next
    case g: (Inr tr1)
    then have s1: "start_epoch tr1 = start_epoch tr"
      unfolding train_generator_def
      by (rule pretrain_epochs_start [rotated]) (rule generator_pretrain_batches_start)
    show ?thesis
    proof (cases "train_discriminator cfg env n tr1")
      case (Inl e)
      with n g show ?thesis by (simp add: SeqGAN_fit_def)
    next
      case d: (Inr tr2)
      then have s2: "start_epoch tr2 = start_epoch tr1"
        unfolding train_discriminator_def
        by (rule pretrain_epochs_start [rotated]) (rule discriminator_pretrain_batches_start)
      from assms(1) s1 s2 have "epo \<in> set [start_epoch tr2..epoch_nums cfg - 1]" by simp
      from SeqGAN_fit_loop_raises [OF this assms(2)] n g d
      show ?thesis by (simp add: SeqGAN_fit_def)
    qed
  qed
qed

text \<open>
  The claim at the concrete adversarial run of two epochs, on the trainer that the
  constructor builds with resume disabled.
\<close>

theorem SeqGAN_fit_raises_witness:
  "SeqGANTrainer_init ex_cfg ex_seqgan_env ''<PAD>'' ex_seqgan_model ex_seqgan_world
     = Inr ex_seqgan_trainer \<and>
   resume ex_cfg = False \<and>
   (\<exists>e. SeqGAN_fit ex_cfg ex_seqgan_env (ex_seqgan_trainer, ex_seqgan_world) = Inl e)"
proof -
  have nr: "resume ex_cfg = False" by (simp add: ex_cfg_def)
  have mem: "0 \<in> set [start_epoch ex_seqgan_trainer..epoch_nums ex_cfg - 1]"
    by (simp add: ex_seqgan_trainer_def SeqGAN_build_optimizer_def AbstractTrainer_init_def
        ex_cfg_def)
  have due: "(0::int) mod 2 = 0 \<or> 0 > epoch_nums ex_cfg - 5" by simp
  from SeqGAN_fit_raises [OF mem due] ex_seqgan_init nr show ?thesis by blast
qed

end
